theory Spec2Isabelle
  imports Main "HOL-Library.AList"
begin

section \<open>JavaScript values\<close>

text \<open>
  The repository holds several revisions of one Express program, \<^verbatim>\<open>server.js\<close>:
  \<^item> \<^verbatim>\<open>src/server.js\<close> lines 1-219: webhook, \<^verbatim>\<open>/subscribe\<close> and \<^verbatim>\<open>/unsubscribe\<close> over the
    registry \<^verbatim>\<open>subs\<close>. Its definitions carry the suffix \<open>_srv\<close>.
  \<^item> \<^verbatim>\<open>src/unnamed/part_000\<close> lines 1-227: the subscription manager over the registry
    \<^verbatim>\<open>active\<close> (\<^verbatim>\<open>subscribeToChannel\<close>, \<^verbatim>\<open>unsubscribeFromChannel\<close>). Its route handlers carry
    the suffix \<open>_mgr\<close>.
  \<^item> \<^verbatim>\<open>src/unnamed/part_000\<close> lines 228-345 and 346-499, and \<^verbatim>\<open>src/server.js\<close> lines
    220-343: the webhook listener, the same handler in all three. Suffix \<open>_hook\<close>.

  Values that arrive as JSON are \<open>jsval\<close>. \<open>JNum n\<close> is the number that the integer
  literal \<open>n\<close> parses to (no fractions, no NaN); numbers are compared with nothing but
  zero. Console output is not modelled. A handler is
  a function from the state before the request to its answer and the state after it;
  an \<^verbatim>\<open>await\<close> is followed through to its outcome, with nothing else running in
  between, except where a function is split at its \<^verbatim>\<open>await\<close>.
\<close>

datatype jsval =
    JUndefined
  | JNull
  | JBool bool
  | JNum int
  | JStr string
  | JArr "jsval list"
  | JObj "(string \<times> jsval) list"

text \<open>\<^verbatim>\<open>!!v\<close>\<close>

fun truthy :: "jsval \<Rightarrow> bool" where
  "truthy JUndefined = False"
| "truthy JNull = False"
| "truthy (JBool b) = b"
| "truthy (JNum n) = (n \<noteq> 0)"
| "truthy (JStr s) = (s \<noteq> [])"
| "truthy (JArr xs) = True"
| "truthy (JObj kvs) = True"

text \<open>A value that is a string or absent (\<^verbatim>\<open>undefined\<close>): an environment variable, a header,
  a channel name. The empty string is falsy.\<close>

fun str_truthy :: "string option \<Rightarrow> bool" where
  "str_truthy None = False"
| "str_truthy (Some s) = (s \<noteq> [])"

definition digit_char :: "nat \<Rightarrow> char" where
  "digit_char d =
     (if d = 0 then CHR ''0'' else if d = 1 then CHR ''1'' else if d = 2 then CHR ''2''
      else if d = 3 then CHR ''3'' else if d = 4 then CHR ''4'' else if d = 5 then CHR ''5''
      else if d = 6 then CHR ''6'' else if d = 7 then CHR ''7'' else if d = 8 then CHR ''8''
      else CHR ''9'')"

function show_nat :: "nat \<Rightarrow> string" where
  "show_nat n =
     (if n < 10 then [digit_char n] else show_nat (n div 10) @ [digit_char (n mod 10)])"
  by pat_completeness auto
termination
  by (relation "measure id") auto

declare show_nat.simps [simp del]

definition show_int :: "int \<Rightarrow> string" where
  "show_int i = (if i < 0 then CHR ''-'' # show_nat (nat (- i)) else show_nat (nat i))"

fun join_comma :: "string list \<Rightarrow> string" where
  "join_comma [] = []"
| "join_comma [s] = s"
| "join_comma (s # t # r) = s @ '','' @ join_comma (t # r)"

text \<open>A safe integer (\<^verbatim>\<open>Number.isSafeInteger\<close>): the number is the integer itself, and
  \<^verbatim>\<open>String\<close> prints its digits.\<close>

definition safe_integer :: "int \<Rightarrow> bool" where
  "safe_integer n = (- 9007199254740991 \<le> n \<and> n \<le> 9007199254740991)"

text \<open>\<^verbatim>\<open>String(v)\<close>. For a number outside the safe integers the rendering is the one of
  the nearest double, which is not computed here: it is the first argument's, a given.\<close>

fun js_String :: "(int \<Rightarrow> string) \<Rightarrow> jsval \<Rightarrow> string" where
  "js_String big JUndefined = ''undefined''"
| "js_String big JNull = ''null''"
| "js_String big (JBool b) = (if b then ''true'' else ''false'')"
| "js_String big (JNum n) = (if safe_integer n then show_int n else big n)"
| "js_String big (JStr s) = s"
| "js_String big (JArr xs) =
     join_comma (map (\<lambda>x. if x = JUndefined \<or> x = JNull then [] else js_String big x) xs)"
| "js_String big (JObj kvs) = ''[object Object]''"

datatype js_error = TypeError string | Error string

text \<open>\<^verbatim>\<open>e.message\<close>\<close>

fun message_of :: "js_error \<Rightarrow> string" where
  "message_of (TypeError m) = m"
| "message_of (Error m) = m"

text \<open>\<^verbatim>\<open>v.k\<close> for the property names the handlers read (\<^verbatim>\<open>type\<close>, \<^verbatim>\<open>challenge\<close>): reading
  a property of \<^verbatim>\<open>undefined\<close> or \<^verbatim>\<open>null\<close> throws, an object gives the property or
  \<^verbatim>\<open>undefined\<close>, every other value gives \<^verbatim>\<open>undefined\<close>.\<close>

fun get_prop :: "jsval \<Rightarrow> string \<Rightarrow> js_error + jsval" where
  "get_prop JUndefined k = Inl (TypeError ''Cannot read properties of undefined'')"
| "get_prop JNull k = Inl (TypeError ''Cannot read properties of null'')"
| "get_prop (JObj kvs) k = Inr (case map_of kvs k of None \<Rightarrow> JUndefined | Some v \<Rightarrow> v)"
| "get_prop v k = Inr JUndefined"

text \<open>\<^verbatim>\<open>v ?? null\<close>\<close>

fun nullish_to_null :: "jsval \<Rightarrow> jsval" where
  "nullish_to_null JUndefined = JNull"
| "nullish_to_null JNull = JNull"
| "nullish_to_null v = v"

section \<open>Environment, collaborators and state\<close>

text \<open>\<^verbatim>\<open>process.env\<close>: a variable is a string or unset.\<close>

record env =
  PODIO_PUSH_SECRET :: "string option"
  APP_BASE_URL :: "string option"
  AVA_TOPIC_URL :: "string option"
  DEBUG_WEBHOOK_URL :: "string option"
  PODIO_COMETD_URL :: "string option"
  NODE_ENV :: "string option"

text \<open>A Bayeux message as the outgoing extension sees it.\<close>

record message =
  msg_channel :: string
  msg_subscription :: jsval
  msg_ext :: "(string \<times> jsval) list option"
  msg_other :: "(string \<times> jsval) list"

text \<open>
  What the handlers do to the outside, in order: \<^verbatim>\<open>axios.post(url, payload)\<close>, the time
  in milliseconds spent in an \<^verbatim>\<open>await\<close> of a forwarder, a call of
  \<^verbatim>\<open>validatePodioSignature\<close>, \<^verbatim>\<open>new Faye.Client(endpoint, {timeout, retry})\<close>,
  \<^verbatim>\<open>client.addExtension({outgoing})\<close>, \<^verbatim>\<open>client.subscribe(channel, callback)\<close>,
  \<^verbatim>\<open>subscription.cancel()\<close> and \<^verbatim>\<open>client.disconnect()\<close>. A client and its one
  subscription share a handle, the number of clients created before it.
\<close>

datatype effect =
    HttpPost "string option" jsval
  | Awaited nat
  | SignatureChecked
  | ClientCreated nat string nat nat
  | ExtensionAdded nat "message \<Rightarrow> message"
  | Subscribed nat string
  | SubscriptionCancel nat
  | ClientDisconnect nat

text \<open>
  A promise, by what becomes of it: it settles after so many milliseconds, rejected with
  an error or resolved with a value, or it stays pending for ever.
\<close>

datatype 'a promise = Settles nat "js_error + 'a" | Pending

text \<open>
  The collaborators the program calls, as given behaviour: the keyed hash
  (\<^verbatim>\<open>crypto\<close>, key then data, hex digest), \<^verbatim>\<open>JSON.stringify\<close>, \<^verbatim>\<open>String\<close> of a number
  that is not a safe integer, what becomes of the promise of a POST (\<^verbatim>\<open>axios.post\<close> is
  called without a timeout), the successive readings of \<^verbatim>\<open>new Date().toISOString()\<close>,
  whether \<^verbatim>\<open>client.subscribe\<close>, \<^verbatim>\<open>subscription.cancel\<close> or \<^verbatim>\<open>client.disconnect\<close> throws, and after
  how many milliseconds the bus confirms a client's subscription (\<open>None\<close>: never).
\<close>

record world =
  hmac_sha1_hex :: "string \<Rightarrow> string \<Rightarrow> string"
  JSON_stringify :: "jsval \<Rightarrow> string"
  Number_toString :: "int \<Rightarrow> string"
  axios_post_outcome :: "string option \<Rightarrow> jsval \<Rightarrow> unit promise"
  Date_toISOString :: "nat \<Rightarrow> string"
  subscribe_error :: "string \<Rightarrow> js_error option"
  cancel_error :: "nat \<Rightarrow> js_error option"
  disconnect_error :: "nat \<Rightarrow> js_error option"
  confirmation_ms :: "nat \<Rightarrow> nat option"

text \<open>
  The process state: the registry (\<^verbatim>\<open>subs\<close> in \<^verbatim>\<open>src/server.js\<close>, \<^verbatim>\<open>active\<close> in
  \<^verbatim>\<open>part_000\<close>; a JavaScript \<^verbatim>\<open>Map\<close> keyed by the channel string, in insertion order),
  the effects so far, the number of clients created and the number of clock readings.
\<close>

record 'e state =
  registry :: "(string \<times> 'e) list"
  effects :: "effect list"
  clients :: nat
  clock :: nat

text \<open>An entry of \<^verbatim>\<open>subs\<close>: \<^verbatim>\<open>{ client, subscription, createdAt }\<close>.\<close>

record sub_entry =
  client :: nat
  subscription :: nat
  createdAt :: string

text \<open>An entry of \<^verbatim>\<open>active\<close>: \<^verbatim>\<open>{ client, subscription }\<close>.\<close>

record active_entry =
  rec_client :: nat
  rec_subscription :: nat

abbreviation subs :: "sub_entry state \<Rightarrow> (string \<times> sub_entry) list" where
  "subs \<equiv> registry"

abbreviation active :: "active_entry state \<Rightarrow> (string \<times> active_entry) list" where
  "active \<equiv> registry"

text \<open>\<^verbatim>\<open>Map.prototype.has\<close>, \<^verbatim>\<open>get\<close>, \<^verbatim>\<open>set\<close>, \<^verbatim>\<open>delete\<close> and \<^verbatim>\<open>keys\<close>\<close>

definition Map_has :: "(string \<times> 'e) list \<Rightarrow> string \<Rightarrow> bool" where
  "Map_has m k = (map_of m k \<noteq> None)"

definition Map_get :: "(string \<times> 'e) list \<Rightarrow> string \<Rightarrow> 'e option" where
  "Map_get m k = map_of m k"

definition Map_set :: "(string \<times> 'e) list \<Rightarrow> string \<Rightarrow> 'e \<Rightarrow> (string \<times> 'e) list" where
  "Map_set m k v = AList.update k v m"

definition Map_delete :: "(string \<times> 'e) list \<Rightarrow> string \<Rightarrow> (string \<times> 'e) list" where
  "Map_delete m k = AList.delete k m"

definition Map_keys :: "(string \<times> 'e) list \<Rightarrow> string list" where
  "Map_keys m = map fst m"

text \<open>The number of entries the registry holds for a channel.\<close>

definition entries_for :: "(string \<times> 'e) list \<Rightarrow> string \<Rightarrow> nat" where
  "entries_for m k = length (filter (\<lambda>p. fst p = k) m)"

definition emit :: "effect list \<Rightarrow> 'e state \<Rightarrow> 'e state" where
  "emit fx s = s\<lparr>effects := effects s @ fx\<rparr>"

text \<open>\<^verbatim>\<open>new Date().toISOString()\<close>\<close>

definition Date_now :: "world \<Rightarrow> 'e state \<Rightarrow> string \<times> 'e state" where
  "Date_now w s = (Date_toISOString w (clock s), s\<lparr>clock := Suc (clock s)\<rparr>)"

text \<open>The POSTs among a list of effects, in order.\<close>

fun posts :: "effect list \<Rightarrow> (string option \<times> jsval) list" where
  "posts [] = []"
| "posts (HttpPost url payload # fx) = (url, payload) # posts fx"
| "posts (x # fx) = posts fx"

section \<open>The outgoing extension\<close>

text \<open>\<^verbatim>\<open>message.ext = message.ext || {}\<close> followed by the two assignments; the signature is
  stored as it is given.\<close>

definition set_auth_ext :: "jsval \<Rightarrow> string \<Rightarrow> message \<Rightarrow> message" where
  "set_auth_ext sig ts m =
     m\<lparr>msg_ext := Some
         (AList.update ''private_pub_timestamp'' (JStr ts)
           (AList.update ''private_pub_signature'' sig
             (case msg_ext m of None \<Rightarrow> [] | Some ext \<Rightarrow> ext)))\<rparr>"

text \<open>\<^verbatim>\<open>src/server.js\<close> lines 91-100, the \<^verbatim>\<open>outgoing\<close> function \<^verbatim>\<open>createFayeClient\<close>
  attaches; \<^verbatim>\<open>channel\<close> is a parameter of \<^verbatim>\<open>createFayeClient\<close> that the function does not
  read.\<close>

definition outgoing_srv ::
  "world \<Rightarrow> string \<Rightarrow> jsval \<Rightarrow> jsval \<Rightarrow> message \<Rightarrow> message" where
  "outgoing_srv w channel signature timestamp m =
     (if msg_channel m = ''/meta/subscribe''
      then set_auth_ext signature (js_String (Number_toString w) timestamp) m
      else m)"

text \<open>\<^verbatim>\<open>part_000\<close> lines 79-88, the \<^verbatim>\<open>outgoing\<close> function \<^verbatim>\<open>subscribeToChannel\<close> attaches.\<close>

definition outgoing_mgr ::
  "world \<Rightarrow> string \<Rightarrow> jsval \<Rightarrow> jsval \<Rightarrow> message \<Rightarrow> message" where
  "outgoing_mgr w channel signature timestamp m =
     (if msg_channel m = ''/meta/subscribe'' \<and> msg_subscription m = JStr channel
      then set_auth_ext (JStr (js_String (Number_toString w) signature))
             (js_String (Number_toString w) timestamp) m
      else m)"

section \<open>Forwarders\<close>

text \<open>\<^verbatim>\<open>axios.post(url, payload, ...)\<close>: the call is recorded, and the promise it returns is
  the one the world gives.\<close>

definition axios_post ::
  "world \<Rightarrow> string option \<Rightarrow> jsval \<Rightarrow> 'e state \<Rightarrow> unit promise \<times> 'e state" where
  "axios_post w url payload s = (axios_post_outcome w url payload, emit [HttpPost url payload] s)"

text \<open>
  \<^verbatim>\<open>forwardToAVA\<close> of \<^verbatim>\<open>src/server.js\<close> lines 38-48 and \<^verbatim>\<open>part_000\<close> lines 43-51, an
  \<^verbatim>\<open>async\<close> function: the call runs the guard and issues the POST, and returns a promise.
  That promise is resolved at once behind the guard; otherwise it is resolved when the
  POST settles, since the \<^verbatim>\<open>catch\<close> turns a rejection into a normal return, and it stays
  pending as long as the POST does.
\<close>

definition forwardToAVA ::
  "env \<Rightarrow> world \<Rightarrow> jsval \<Rightarrow> 'e state \<Rightarrow> unit promise \<times> 'e state" where
  "forwardToAVA e w payload s =
     (if \<not> str_truthy (AVA_TOPIC_URL e) then (Settles 0 (Inr ()), s)
      else case axios_post w (AVA_TOPIC_URL e) payload s of
             (Settles d (Inr u), s') \<Rightarrow> (Settles d (Inr ()), s')
           | (Settles d (Inl err), s') \<Rightarrow> (Settles d (Inr ()), s')
           | (Pending, s') \<Rightarrow> (Pending, s'))"

text \<open>\<^verbatim>\<open>forwardToAVA\<close> of the webhook listener (\<^verbatim>\<open>part_000\<close> lines 277-286): no guard.\<close>

definition forwardToAVA_hook ::
  "env \<Rightarrow> world \<Rightarrow> jsval \<Rightarrow> 'e state \<Rightarrow> unit promise \<times> 'e state" where
  "forwardToAVA_hook e w payload s =
     (case axios_post w (AVA_TOPIC_URL e) payload s of
        (Settles d (Inr u), s') \<Rightarrow> (Settles d (Inr ()), s')
      | (Settles d (Inl err), s') \<Rightarrow> (Settles d (Inr ()), s')
      | (Pending, s') \<Rightarrow> (Pending, s'))"

text \<open>\<^verbatim>\<open>forwardToDebug\<close>, the same in every revision.\<close>

definition forwardToDebug ::
  "env \<Rightarrow> world \<Rightarrow> jsval \<Rightarrow> 'e state \<Rightarrow> unit promise \<times> 'e state" where
  "forwardToDebug e w payload s =
     (if \<not> str_truthy (DEBUG_WEBHOOK_URL e) then (Settles 0 (Inr ()), s)
      else case axios_post w (DEBUG_WEBHOOK_URL e) payload s of
             (Settles d (Inr u), s') \<Rightarrow> (Settles d (Inr ()), s')
           | (Settles d (Inl err), s') \<Rightarrow> (Settles d (Inr ()), s')
           | (Pending, s') \<Rightarrow> (Pending, s'))"

text \<open>
  \<^verbatim>\<open>await p\<close> inside an \<^verbatim>\<open>async\<close> function, followed by the rest of the function: while
  \<open>p\<close> is pending the rest does not run and the function's own promise stays pending;
  when \<open>p\<close> is rejected the function's promise is rejected with the same error; when
  \<open>p\<close> is resolved the rest runs, and the time it takes is added to the wait.
\<close>

definition await ::
  "'a promise \<Rightarrow> 'e state \<Rightarrow> ('a \<Rightarrow> 'e state \<Rightarrow> 'b promise \<times> 'e state)
     \<Rightarrow> 'b promise \<times> 'e state" where
  "await p s rest =
     (case p of
        Pending \<Rightarrow> (Pending, s)
      | Settles d (Inl err) \<Rightarrow> (Settles d (Inl err), emit [Awaited d] s)
      | Settles d (Inr x) \<Rightarrow>
          (case rest x (emit [Awaited d] s) of
             (Pending, s') \<Rightarrow> (Pending, s')
           | (Settles d' r, s') \<Rightarrow> (Settles (d + d') r, s')))"

section \<open>Signature validation\<close>

text \<open>\<^verbatim>\<open>crypto.createHmac("sha1", key)\<close>: Node throws a \<^verbatim>\<open>TypeError\<close>
  (\<^verbatim>\<open>ERR_INVALID_ARG_TYPE\<close>) for a key that is \<^verbatim>\<open>undefined\<close>; for a string, the empty one
  included, it gives the hasher.\<close>

definition createHmac_sha1 :: "world \<Rightarrow> string option \<Rightarrow> js_error + (string \<Rightarrow> string)" where
  "createHmac_sha1 w key =
     (case key of
        None \<Rightarrow> Inl (TypeError ''The key argument must be of type string. Received undefined'')
      | Some k \<Rightarrow> Inr (hmac_sha1_hex w k))"

text \<open>\<^verbatim>\<open>src/server.js\<close> lines 65-71: the key is \<^verbatim>\<open>PODIO_PUSH_SECRET || ""\<close>.\<close>

definition validatePodioSignature_srv ::
  "env \<Rightarrow> world \<Rightarrow> jsval \<Rightarrow> string option \<Rightarrow> js_error + bool" where
  "validatePodioSignature_srv e w body signature =
     (case createHmac_sha1 w
             (if str_truthy (PODIO_PUSH_SECRET e) then PODIO_PUSH_SECRET e else Some []) of
        Inl err \<Rightarrow> Inl err
      | Inr digest \<Rightarrow> Inr (Some (digest (JSON_stringify w body)) = signature))"

text \<open>\<^verbatim>\<open>part_000\<close> lines 265-272 (and 384-391, \<^verbatim>\<open>src/server.js\<close> 258-265): the key is
  \<^verbatim>\<open>PODIO_PUSH_SECRET\<close> as it is.\<close>

definition validatePodioSignature_hook ::
  "env \<Rightarrow> world \<Rightarrow> jsval \<Rightarrow> string option \<Rightarrow> js_error + bool" where
  "validatePodioSignature_hook e w body signature =
     (case createHmac_sha1 w (PODIO_PUSH_SECRET e) of
        Inl err \<Rightarrow> Inl err
      | Inr digest \<Rightarrow> Inr (Some (digest (JSON_stringify w body)) = signature))"

section \<open>The webhook handler\<close>

text \<open>A request to \<^verbatim>\<open>POST /podio/push\<close>: the parsed body and the header
  \<^verbatim>\<open>x-podio-signature\<close>.\<close>

record request =
  req_body :: jsval
  x_podio_signature :: "string option"

text \<open>\<^verbatim>\<open>res.status(n).json(v)\<close> and \<^verbatim>\<open>res.status(n).send(text)\<close>; the status is 200 where
  the source sets none.\<close>

datatype response = Json nat jsval | Send nat string

definition invalid_signature :: response where
  "invalid_signature = Send 401 ''Invalid signature''"

text \<open>The body of the handshake answer.\<close>

definition handshake_body :: "string \<Rightarrow> jsval \<Rightarrow> jsval" where
  "handshake_body base challenge =
     JObj [(''status'', JStr ''ok''),
           (''subscribe_url'', JStr (base @ ''/podio/push'')),
           (''challenge'', challenge)]"

text \<open>Lines 135-138 of \<^verbatim>\<open>src/server.js\<close>: the two forwards are called without
  \<^verbatim>\<open>await\<close>, so the promises they return are dropped, and the handler answers 200.\<close>

definition fan_out_srv ::
  "env \<Rightarrow> world \<Rightarrow> jsval \<Rightarrow> 'e state \<Rightarrow> (js_error + response) \<times> 'e state" where
  "fan_out_srv e w body s =
     (let (r1, s1) = forwardToAVA e w body s;
          (r2, s2) = forwardToDebug e w body s1
      in (Inr (Send 200 ''OK''), s2))"

text \<open>Lines 127-138 of \<^verbatim>\<open>src/server.js\<close>: \<^verbatim>\<open>!signature || !validatePodioSignature(...)\<close>
  evaluates the validation only for a truthy header.\<close>

definition verify_and_forward_srv ::
  "env \<Rightarrow> world \<Rightarrow> jsval \<Rightarrow> string option \<Rightarrow> 'e state \<Rightarrow> (js_error + response) \<times> 'e state" where
  "verify_and_forward_srv e w body signature s =
     (if \<not> str_truthy signature then (Inr invalid_signature, s)
      else case validatePodioSignature_srv e w body signature of
             Inl err \<Rightarrow> (Inl err, emit [SignatureChecked] s)
           | Inr ok \<Rightarrow>
               if \<not> ok then (Inr invalid_signature, emit [SignatureChecked] s)
               else fan_out_srv e w body (emit [SignatureChecked] s))"

text \<open>\<^verbatim>\<open>app.post("/podio/push")\<close> of \<^verbatim>\<open>src/server.js\<close> lines 113-139; the base of the
  URL is \<^verbatim>\<open>APP_BASE_URL || ""\<close>.\<close>

definition podio_push_srv ::
  "env \<Rightarrow> world \<Rightarrow> request \<Rightarrow> 'e state \<Rightarrow> (js_error + response) \<times> 'e state" where
  "podio_push_srv e w req s =
     (let body = (if truthy (req_body req) then req_body req else JObj []) in
      case get_prop body ''type'' of
        Inl err \<Rightarrow> (Inl err, s)
      | Inr ty \<Rightarrow>
         (case get_prop body ''challenge'' of
            Inl err \<Rightarrow> (Inl err, s)
          | Inr challenge \<Rightarrow>
              if ty = JStr ''subscription_verification'' \<and> truthy challenge
              then (Inr (Json 200
                      (handshake_body (case APP_BASE_URL e of None \<Rightarrow> [] | Some u \<Rightarrow> u)
                         challenge)), s)
              else verify_and_forward_srv e w body (x_podio_signature req) s))"

text \<open>The webhook listener, \<^verbatim>\<open>part_000\<close> lines 305-338: the forwards and the validation.\<close>

definition fan_out_hook ::
  "env \<Rightarrow> world \<Rightarrow> jsval \<Rightarrow> 'e state \<Rightarrow> (js_error + response) \<times> 'e state" where
  "fan_out_hook e w body s =
     (let (r1, s1) = forwardToAVA_hook e w body s;
          (r2, s2) = forwardToDebug e w body s1
      in (Inr (Send 200 ''OK''), s2))"

definition verify_and_forward_hook ::
  "env \<Rightarrow> world \<Rightarrow> jsval \<Rightarrow> string option \<Rightarrow> 'e state \<Rightarrow> (js_error + response) \<times> 'e state" where
  "verify_and_forward_hook e w body signature s =
     (if \<not> str_truthy signature then (Inr invalid_signature, s)
      else case validatePodioSignature_hook e w body signature of
             Inl err \<Rightarrow> (Inl err, emit [SignatureChecked] s)
           | Inr ok \<Rightarrow>
               if \<not> ok then (Inr invalid_signature, emit [SignatureChecked] s)
               else fan_out_hook e w body (emit [SignatureChecked] s))"

text \<open>\<^verbatim>\<open>app.post("/podio/push")\<close> of the webhook listener; the template
  \<^verbatim>\<open>${APP_BASE_URL}\<close> prints an unset variable as \<^verbatim>\<open>undefined\<close>. An error that leaves the
  \<^verbatim>\<open>async\<close> handler is the result \<open>Inl\<close>: no response is sent.\<close>

definition podio_push_hook ::
  "env \<Rightarrow> world \<Rightarrow> request \<Rightarrow> 'e state \<Rightarrow> (js_error + response) \<times> 'e state" where
  "podio_push_hook e w req s =
     (let body = req_body req in
      case get_prop body ''type'' of
        Inl err \<Rightarrow> (Inl err, s)
      | Inr ty \<Rightarrow>
          if ty = JStr ''subscription_verification''
          then (case get_prop body ''challenge'' of
                  Inl err \<Rightarrow> (Inl err, s)
                | Inr challenge \<Rightarrow>
                    (Inr (Json 200
                       (handshake_body
                          (case APP_BASE_URL e of None \<Rightarrow> ''undefined'' | Some u \<Rightarrow> u)
                          challenge)), s))
          else verify_and_forward_hook e w body (x_podio_signature req) s)"

text \<open>\<^verbatim>\<open>app.get("/health")\<close> of \<^verbatim>\<open>src/server.js\<close> line 110.\<close>

definition health_srv :: "sub_entry state \<Rightarrow> response \<times> sub_entry state" where
  "health_srv s = (Send 200 ''OK'', s)"

section \<open>Subscriptions in \<^verbatim>\<open>src/server.js\<close>\<close>

text \<open>The \<^verbatim>\<open>push\<close> object of a \<^verbatim>\<open>/subscribe\<close> body. The channel is a string or absent
  (the registry is keyed by the channel string); the other fields are any value,
  \<open>JUndefined\<close> when absent.\<close>

record push =
  push_channel :: "string option"
  push_signature :: jsval
  push_timestamp :: jsval
  push_expires_in :: jsval

text \<open>\<^verbatim>\<open>createFayeClient\<close>, lines 80-103.\<close>

definition createFayeClient ::
  "world \<Rightarrow> string \<Rightarrow> jsval \<Rightarrow> jsval \<Rightarrow> 'e state \<Rightarrow> nat \<times> 'e state" where
  "createFayeClient w channel signature timestamp s =
     (let h = clients s in
      (h, emit [ClientCreated h ''https://push.podio.com/faye'' 45 5,
                ExtensionAdded h (outgoing_srv w channel signature timestamp)]
            (s\<lparr>clients := Suc h\<rparr>)))"

text \<open>The callback given to \<^verbatim>\<open>client.subscribe\<close>, lines 167-172, an \<^verbatim>\<open>async\<close> function:
  \<^verbatim>\<open>forwardToAVA\<close> is called and awaited, then \<^verbatim>\<open>forwardToDebug\<close> is called and awaited,
  each with an envelope of its own.\<close>

definition event_envelope_srv :: "string \<Rightarrow> jsval \<Rightarrow> string \<Rightarrow> jsval" where
  "event_envelope_srv channel msg received_at =
     JObj [(''channel'', JStr channel), (''message'', msg), (''received_at'', JStr received_at)]"

definition on_message_srv ::
  "env \<Rightarrow> world \<Rightarrow> string \<Rightarrow> jsval \<Rightarrow> 'e state \<Rightarrow> unit promise \<times> 'e state" where
  "on_message_srv e w channel msg s =
     (let (t1, s1) = Date_now w s;
          (p1, s2) = forwardToAVA e w (event_envelope_srv channel msg t1) s1
      in await p1 s2 (\<lambda>u1 s3.
           let (t2, s4) = Date_now w s3;
               (p2, s5) = forwardToDebug e w (event_envelope_srv channel msg t2) s4
           in await p2 s5 (\<lambda>u2 s6. (Settles 0 (Inr ()), s6))))"

text \<open>\<^verbatim>\<open>subscription.then(...)\<close>, lines 174-177: both callbacks only write to the
  console, whether the bus confirmed (\<open>True\<close>) or the subscription failed.\<close>

definition subscription_settled_srv :: "bool \<Rightarrow> sub_entry state \<Rightarrow> sub_entry state" where
  "subscription_settled_srv confirmed s = s"

definition missing_push_srv :: response where
  "missing_push_srv =
     Json 400 (JObj [(''error'', JStr ''Missing push.channel, push.signature, or push.timestamp'')])"

text \<open>\<^verbatim>\<open>app.post("/subscribe")\<close>, lines 144-190. The argument is \<^verbatim>\<open>req.body?.push\<close>.\<close>

definition subscribe_srv ::
  "world \<Rightarrow> push option \<Rightarrow> sub_entry state \<Rightarrow> response \<times> sub_entry state" where
  "subscribe_srv w req s =
     (case req of
        None \<Rightarrow> (missing_push_srv, s)
      | Some p \<Rightarrow>
          if \<not> str_truthy (push_channel p) \<or> \<not> truthy (push_signature p)
             \<or> \<not> truthy (push_timestamp p)
          then (missing_push_srv, s)
          else
            (case push_channel p of
               None \<Rightarrow> (missing_push_srv, s)
             | Some channel \<Rightarrow>
                (case Map_get (subs s) channel of
                   Some entry \<Rightarrow>
                     (Json 200 (JObj [(''status'', JStr ''exists''),
                                      (''channel'', JStr channel),
                                      (''expires_in'', push_expires_in p),
                                      (''createdAt'', JStr (createdAt entry))]), s)
                 | None \<Rightarrow>
                     (let (h, s1) = createFayeClient w channel (push_signature p) (push_timestamp p) s
                      in case subscribe_error w channel of
                           Some err \<Rightarrow>
                             (Json 500 (JObj [(''error'', JStr (message_of err))]), s1)
                         | None \<Rightarrow>
                             (let s2 = emit [Subscribed h channel] s1;
                                  (now, s3) = Date_now w s2
                              in (Json 200 (JObj [(''status'', JStr ''subscribed''),
                                                  (''channel'', JStr channel),
                                                  (''expires_in'',
                                                     nullish_to_null (push_expires_in p))]),
                                  s3\<lparr>registry :=
                                       Map_set (subs s3) channel
                                         \<lparr>client = h, subscription = h, createdAt = now\<rparr>\<rparr>))))))"

text \<open>\<^verbatim>\<open>app.post("/unsubscribe")\<close>, lines 194-211. The argument is
  \<^verbatim>\<open>req.body?.channel\<close>.\<close>

definition unsubscribe_srv ::
  "world \<Rightarrow> string option \<Rightarrow> sub_entry state \<Rightarrow> response \<times> sub_entry state" where
  "unsubscribe_srv w req s =
     (case req of
        None \<Rightarrow> (Json 400 (JObj [(''error'', JStr ''Missing channel'')]), s)
      | Some channel \<Rightarrow>
          if channel = [] then (Json 400 (JObj [(''error'', JStr ''Missing channel'')]), s)
          else
            (case Map_get (subs s) channel of
               None \<Rightarrow>
                 (Json 200 (JObj [(''status'', JStr ''not_found''), (''channel'', JStr channel)]), s)
             | Some entry \<Rightarrow>
                 (let s1 = emit [SubscriptionCancel (subscription entry)] s
                  in case cancel_error w (subscription entry) of
                       Some err \<Rightarrow>
                         (Json 500 (JObj [(''error'', JStr (message_of err))]), s1)
                     | None \<Rightarrow>
                         (Json 200 (JObj [(''status'', JStr ''unsubscribed''),
                                          (''channel'', JStr channel)]),
                          s1\<lparr>registry := Map_delete (subs s1) channel\<rparr>))))"

section \<open>The subscription manager of \<^verbatim>\<open>part_000\<close>\<close>

text \<open>The confirmation wait of \<^verbatim>\<open>subscribeToChannel\<close>, lines 112-123: the promise resolves
  when the bus confirms before the timer of 15000 ms fires, and is rejected by the timer
  otherwise.\<close>

definition confirm_timeout_ms :: nat where
  "confirm_timeout_ms = 15000"

definition confirmed_in_time :: "world \<Rightarrow> nat \<Rightarrow> bool" where
  "confirmed_in_time w h =
     (case confirmation_ms w h of None \<Rightarrow> False | Some t \<Rightarrow> t < confirm_timeout_ms)"

definition cometd_url :: "env \<Rightarrow> string" where
  "cometd_url e =
     (case PODIO_COMETD_URL e of None \<Rightarrow> ''https://podio.com:443/cometd'' | Some u \<Rightarrow> u)"

definition status_result :: "string \<Rightarrow> string \<Rightarrow> jsval" where
  "status_result st channel = JObj [(''status'', JStr st), (''channel'', JStr channel)]"

text \<open>\<^verbatim>\<open>subscribeToChannel\<close> runs in two parts. The first, lines 66-111, ends at the
  \<^verbatim>\<open>await\<close>: either the function has returned or thrown, or it is suspended with the
  client's handle, and the state is as it stands at that moment.\<close>

datatype 'e suspended =
    Returned "js_error + jsval" "'e state"
  | Awaiting nat "'e state"

definition subscribeToChannel_begin ::
  "env \<Rightarrow> world \<Rightarrow> string \<Rightarrow> jsval \<Rightarrow> jsval \<Rightarrow> active_entry state \<Rightarrow> active_entry suspended" where
  "subscribeToChannel_begin e w channel signature timestamp s =
     (if Map_has (active s) channel
      then Returned (Inr (status_result ''already_subscribed'' channel)) s
      else
        (let h = clients s;
             s1 = emit [ClientCreated h (cometd_url e) 60 5,
                        ExtensionAdded h (outgoing_mgr w channel signature timestamp)]
                    (s\<lparr>clients := Suc h\<rparr>)
         in case subscribe_error w channel of
              Some err \<Rightarrow> Returned (Inl err) s1
            | None \<Rightarrow> Awaiting h (emit [Subscribed h channel] s1)))"

text \<open>The second part, lines 112-127, from the state in which the wait ends.\<close>

definition subscribeToChannel_resume ::
  "world \<Rightarrow> string \<Rightarrow> nat \<Rightarrow> active_entry state \<Rightarrow> (js_error + jsval) \<times> active_entry state" where
  "subscribeToChannel_resume w channel h s =
     (if confirmed_in_time w h
      then (Inr (status_result ''subscribed'' channel),
            s\<lparr>registry := Map_set (active s) channel \<lparr>rec_client = h, rec_subscription = h\<rparr>\<rparr>)
      else (Inl (Error ''Subscribe timeout (no confirmation received)''), s))"

text \<open>The whole call, with nothing else running during the wait.\<close>

definition subscribeToChannel ::
  "env \<Rightarrow> world \<Rightarrow> string \<Rightarrow> jsval \<Rightarrow> jsval \<Rightarrow> active_entry state
     \<Rightarrow> (js_error + jsval) \<times> active_entry state" where
  "subscribeToChannel e w channel signature timestamp s =
     (case subscribeToChannel_begin e w channel signature timestamp s of
        Returned r s' \<Rightarrow> (r, s')
      | Awaiting h s' \<Rightarrow> subscribeToChannel_resume w channel h s')"

text \<open>The callback given to \<^verbatim>\<open>client.subscribe\<close>, lines 91-104: one envelope, and
  \<^verbatim>\<open>forwardToAVA\<close> is awaited before \<^verbatim>\<open>forwardToDebug\<close> is called.\<close>

definition event_envelope_mgr :: "string \<Rightarrow> jsval \<Rightarrow> string \<Rightarrow> jsval" where
  "event_envelope_mgr channel pushPayload received_at =
     JObj [(''meta'', JObj [(''channel'', JStr channel),
                            (''received_at'', JStr received_at),
                            (''source'', JStr ''podio-push'')]),
           (''push_event'', pushPayload)]"

definition on_message_mgr ::
  "env \<Rightarrow> world \<Rightarrow> string \<Rightarrow> jsval \<Rightarrow> 'e state \<Rightarrow> unit promise \<times> 'e state" where
  "on_message_mgr e w channel pushPayload s =
     (let (t, s1) = Date_now w s;
          envelope = event_envelope_mgr channel pushPayload t;
          (p1, s2) = forwardToAVA e w envelope s1
      in await p1 s2 (\<lambda>u1 s3.
           let (p2, s4) = forwardToDebug e w envelope s3
           in await p2 s4 (\<lambda>u2 s5. (Settles 0 (Inr ()), s5))))"

text \<open>\<^verbatim>\<open>unsubscribeFromChannel\<close>, lines 133-150: each of the two calls sits in a
  \<^verbatim>\<open>try\<close> whose \<^verbatim>\<open>catch\<close> is empty.\<close>

definition unsubscribeFromChannel ::
  "world \<Rightarrow> string \<Rightarrow> active_entry state \<Rightarrow> (js_error + jsval) \<times> active_entry state" where
  "unsubscribeFromChannel w channel s =
     (case Map_get (active s) channel of
        None \<Rightarrow> (Inr (status_result ''not_found'' channel), s)
      | Some entry \<Rightarrow>
          (let s1 = (case cancel_error w (rec_subscription entry) of
                       Some err \<Rightarrow> emit [SubscriptionCancel (rec_subscription entry)] s
                     | None \<Rightarrow> emit [SubscriptionCancel (rec_subscription entry)] s);
               s2 = (case disconnect_error w (rec_client entry) of
                       Some err \<Rightarrow> emit [ClientDisconnect (rec_client entry)] s1
                     | None \<Rightarrow> emit [ClientDisconnect (rec_client entry)] s1)
           in (Inr (status_result ''unsubscribed'' channel),
               s2\<lparr>registry := Map_delete (active s2) channel\<rparr>)))"

text \<open>The \<^verbatim>\<open>catch\<close> of both route handlers: \<^verbatim>\<open>err.message || "Internal error"\<close>.\<close>

definition internal_error_mgr :: "js_error \<Rightarrow> response" where
  "internal_error_mgr err =
     Json 500 (JObj [(''ok'', JBool False),
                     (''error'', JStr (if message_of err = [] then ''Internal error''
                                       else message_of err))])"

text \<open>\<^verbatim>\<open>app.post("/subscribe")\<close>, lines 168-189. The argument is \<^verbatim>\<open>req.body?.push\<close>, of
  which an absent one counts as \<^verbatim>\<open>{}\<close>.\<close>

definition subscribe_mgr ::
  "env \<Rightarrow> world \<Rightarrow> push option \<Rightarrow> active_entry state \<Rightarrow> response \<times> active_entry state" where
  "subscribe_mgr e w req s =
     (let p = (case req of
                 None \<Rightarrow> \<lparr>push_channel = None, push_signature = JUndefined,
                          push_timestamp = JUndefined, push_expires_in = JUndefined\<rparr>
               | Some q \<Rightarrow> q);
          missing = Json 400 (JObj [(''error'',
                      JStr ''Missing required fields: push.channel, push.signature, push.timestamp'')])
      in if \<not> str_truthy (push_channel p) \<or> \<not> truthy (push_signature p)
            \<or> \<not> truthy (push_timestamp p)
         then (missing, s)
         else
           (case push_channel p of
              None \<Rightarrow> (missing, s)
            | Some channel \<Rightarrow>
               (case subscribeToChannel e w channel (push_signature p) (push_timestamp p) s of
                  (Inl err, s') \<Rightarrow> (internal_error_mgr err, s')
                | (Inr result, s') \<Rightarrow>
                    (Json 200 (JObj [(''ok'', JBool True), (''result'', result),
                                     (''cometd'', JStr (cometd_url e))]), s'))))"

text \<open>\<^verbatim>\<open>app.post("/unsubscribe")\<close>, lines 196-207. The argument is the \<^verbatim>\<open>channel\<close> of
  \<^verbatim>\<open>req.body || {}\<close>.\<close>

definition unsubscribe_mgr ::
  "world \<Rightarrow> string option \<Rightarrow> active_entry state \<Rightarrow> response \<times> active_entry state" where
  "unsubscribe_mgr w req s =
     (case req of
        None \<Rightarrow> (Json 400 (JObj [(''error'', JStr ''Missing body.channel'')]), s)
      | Some channel \<Rightarrow>
          if channel = [] then (Json 400 (JObj [(''error'', JStr ''Missing body.channel'')]), s)
          else
            (case unsubscribeFromChannel w channel s of
               (Inl err, s') \<Rightarrow> (internal_error_mgr err, s')
             | (Inr result, s') \<Rightarrow>
                 (Json 200 (JObj [(''ok'', JBool True), (''result'', result)]), s')))"

text \<open>\<^verbatim>\<open>app.get("/health")\<close>, lines 212-219; \<^verbatim>\<open>NODE_ENV\<close> is \<^verbatim>\<open>production\<close> when unset.\<close>

definition health_mgr :: "env \<Rightarrow> active_entry state \<Rightarrow> response \<times> active_entry state" where
  "health_mgr e s =
     (Json 200 (JObj [(''ok'', JBool True),
                      (''env'', JStr (case NODE_ENV e of None \<Rightarrow> ''production'' | Some v \<Rightarrow> v)),
                      (''cometd'', JStr (cometd_url e)),
                      (''subscriptions'', JArr (map JStr (Map_keys (active s))))]), s)"

section \<open>Notions used in the statements\<close>

text \<open>A \<^verbatim>\<open>Map\<close> holds each key once.\<close>

definition distinct_keys :: "(string \<times> 'e) list \<Rightarrow> bool" where
  "distinct_keys m = distinct (map fst m)"

text \<open>The state of a process that has just started: \<^verbatim>\<open>new Map()\<close>, nothing done yet.\<close>

definition initial_state :: "'e state" where
  "initial_state = \<lparr>registry = [], effects = [], clients = 0, clock = 0\<rparr>"

text \<open>The body the handler of \<^verbatim>\<open>src/server.js\<close> works on, \<^verbatim>\<open>req.body || {}\<close>, and the
  condition of its line 117.\<close>

definition body_srv :: "request \<Rightarrow> jsval" where
  "body_srv req = (if truthy (req_body req) then req_body req else JObj [])"

definition is_handshake_srv :: "request \<Rightarrow> bool" where
  "is_handshake_srv req =
     (case get_prop (body_srv req) ''type'' of
        Inl err \<Rightarrow> False
      | Inr ty \<Rightarrow>
         (case get_prop (body_srv req) ''challenge'' of
            Inl err \<Rightarrow> False
          | Inr challenge \<Rightarrow> ty = JStr ''subscription_verification'' \<and> truthy challenge))"

text \<open>The targets a payload goes to, in the order of the calls: \<^verbatim>\<open>AVA_TOPIC_URL\<close>, then
  \<^verbatim>\<open>DEBUG_WEBHOOK_URL\<close>, each when it is set and not empty.\<close>

definition dispatches :: "env \<Rightarrow> jsval \<Rightarrow> jsval \<Rightarrow> (string option \<times> jsval) list" where
  "dispatches e to_ava to_debug =
     (if str_truthy (AVA_TOPIC_URL e) then [(AVA_TOPIC_URL e, to_ava)] else [])
     @ (if str_truthy (DEBUG_WEBHOOK_URL e) then [(DEBUG_WEBHOOK_URL e, to_debug)] else [])"

text \<open>How long the \<^verbatim>\<open>await\<close> of a forwarder lasts for a target and a payload: no
  time when the target is not configured, the time the POST takes to settle otherwise,
  \<open>None\<close> when the POST stays pending.\<close>

definition wait_for :: "world \<Rightarrow> string option \<Rightarrow> jsval \<Rightarrow> nat option" where
  "wait_for w url payload =
     (if \<not> str_truthy url then Some 0
      else case axios_post_outcome w url payload of
             Settles d r \<Rightarrow> Some d
           | Pending \<Rightarrow> None)"

text \<open>When each POST among a list of effects is issued, in milliseconds from the time
  given for the head of the list, and to which target.\<close>

fun post_times :: "nat \<Rightarrow> effect list \<Rightarrow> (nat \<times> string option) list" where
  "post_times t [] = []"
| "post_times t (HttpPost url payload # fx) = (t, url) # post_times t fx"
| "post_times t (Awaited d # fx) = post_times (t + d) fx"
| "post_times t (x # fx) = post_times t fx"

text \<open>The effects a run has added to those of the state it started in.\<close>

definition added :: "'e state \<Rightarrow> 'e state \<Rightarrow> effect list" where
  "added s s' = drop (length (effects s)) (effects s')"






section \<open>Sample inputs\<close>

text \<open>Two environments, every variable set and every variable unset.\<close>

definition env_set :: env where
  "env_set =
     \<lparr>PODIO_PUSH_SECRET = Some ''s3cret'', APP_BASE_URL = Some ''https://relay.example'',
      AVA_TOPIC_URL = Some ''https://ava.example/topic'',
      DEBUG_WEBHOOK_URL = Some ''https://debug.example/hook'',
      PODIO_COMETD_URL = None, NODE_ENV = None\<rparr>"

definition env_unset :: env where
  "env_unset =
     \<lparr>PODIO_PUSH_SECRET = None, APP_BASE_URL = None, AVA_TOPIC_URL = None,
      DEBUG_WEBHOOK_URL = None, PODIO_COMETD_URL = None, NODE_ENV = None\<rparr>"

text \<open>Three worlds. In the first every collaborator succeeds: a POST is answered after
  40 ms and the bus confirms after 120 ms. In the second every POST to the AVA topic is
  rejected after 21 seconds, \<^verbatim>\<open>cancel\<close> and \<^verbatim>\<open>disconnect\<close> throw and the bus never confirms.
  In the third a POST to the AVA topic is never answered. The digest, the serialisation
  and the rendering of large numbers are stand-ins: no statement below depends on what
  they compute.\<close>

definition world_ok :: world where
  "world_ok =
     \<lparr>hmac_sha1_hex = (\<lambda>key data. key @ '':'' @ data),
      JSON_stringify = js_String show_int,
      Number_toString = show_int,
      axios_post_outcome = (\<lambda>url payload. Settles 40 (Inr ())),
      Date_toISOString = (\<lambda>n. ''2025-01-01T00:00:0'' @ show_nat n @ ''Z''),
      subscribe_error = (\<lambda>channel. None),
      cancel_error = (\<lambda>h. None),
      disconnect_error = (\<lambda>h. None),
      confirmation_ms = (\<lambda>h. Some 120)\<rparr>"

definition world_failing :: world where
  "world_failing =
     \<lparr>hmac_sha1_hex = (\<lambda>key data. key @ '':'' @ data),
      JSON_stringify = js_String show_int,
      Number_toString = show_int,
      axios_post_outcome =
        (\<lambda>url payload. if url = Some ''https://ava.example/topic''
                        then Settles 21000 (Inl (Error ''connect ETIMEDOUT''))
                        else Settles 40 (Inr ())),
      Date_toISOString = (\<lambda>n. ''2025-01-01T00:00:0'' @ show_nat n @ ''Z''),
      subscribe_error = (\<lambda>channel. None),
      cancel_error = (\<lambda>h. Some (Error ''cancel failed'')),
      disconnect_error = (\<lambda>h. Some (Error ''disconnect failed'')),
      confirmation_ms = (\<lambda>h. None)\<rparr>"

definition world_hanging :: world where
  "world_hanging =
     world_ok\<lparr>axios_post_outcome :=
        (\<lambda>url payload. if url = Some ''https://ava.example/topic''
                        then Pending else Settles 40 (Inr ()))\<rparr>"

text \<open>The request of the end-to-end scenarios:
  \<^verbatim>\<open>{push: {channel: "/task/1", signature: "abc", timestamp: 1700000000}}\<close>.\<close>

definition push_task1 :: push where
  "push_task1 =
     \<lparr>push_channel = Some ''/task/1'', push_signature = JStr ''abc'',
      push_timestamp = JNum 1700000000, push_expires_in = JUndefined\<rparr>"

text \<open>Outgoing messages of a client: \<^verbatim>\<open>/meta/subscribe\<close> for the channels \<^verbatim>\<open>/task/1\<close> and
  \<^verbatim>\<open>/task/2\<close>, and \<^verbatim>\<open>/meta/connect\<close>.\<close>

definition subscribe_task1 :: message where
  "subscribe_task1 =
     \<lparr>msg_channel = ''/meta/subscribe'', msg_subscription = JStr ''/task/1'',
      msg_ext = None, msg_other = [(''clientId'', JStr ''c1'')]\<rparr>"

definition connect_message :: message where
  "connect_message =
     \<lparr>msg_channel = ''/meta/connect'', msg_subscription = JUndefined,
      msg_ext = None, msg_other = [(''clientId'', JStr ''c1'')]\<rparr>"


definition subscribe_task2 :: message where
  "subscribe_task2 =
     \<lparr>msg_channel = ''/meta/subscribe'', msg_subscription = JStr ''/task/2'',
      msg_ext = None, msg_other = [(''clientId'', JStr ''c1'')]\<rparr>"

text \<open>The states after that request has been served by a process that had just started,
  in \<^verbatim>\<open>src/server.js\<close> and in \<^verbatim>\<open>part_000\<close>.\<close>

definition subscribed_task1_srv :: "sub_entry state" where
  "subscribed_task1_srv = snd (subscribe_srv world_ok (Some push_task1) initial_state)"

definition subscribed_task1_mgr :: "active_entry state" where
  "subscribed_task1_mgr =
     snd (subscribeToChannel env_unset world_ok ''/task/1'' (JStr ''abc'') (JNum 1700000000)
            initial_state)"

text \<open>Webhook requests: the handshake of the end-to-end scenarios, a handshake type
  without a challenge, and an event; the last two with a given signature header.\<close>

definition handshake_request :: request where
  "handshake_request =
     \<lparr>req_body = JObj [(''type'', JStr ''subscription_verification''),
                       (''challenge'', JStr ''xyz'')],
      x_podio_signature = None\<rparr>"

definition bare_handshake_request :: "string option \<Rightarrow> request" where
  "bare_handshake_request signature =
     \<lparr>req_body = JObj [(''type'', JStr ''subscription_verification'')],
      x_podio_signature = signature\<rparr>"

definition event_request :: "string option \<Rightarrow> request" where
  "event_request signature =
     \<lparr>req_body = JObj [(''type'', JStr ''item.update''), (''item_id'', JNum 7)],
      x_podio_signature = signature\<rparr>"


section \<open>Lemmas about the registry, the forwarders and the handlers\<close>

lemma Map_get_set: "Map_get (Map_set m k v) k' = (if k' = k then Some v else Map_get m k')"
  by (simp add: Map_get_def Map_set_def update_conv')

lemma Map_get_delete: "Map_get (Map_delete m k) k' = (if k' = k then None else Map_get m k')"
  by (simp add: Map_get_def Map_delete_def delete_conv')

lemma Map_has_get: "Map_has m k = (Map_get m k \<noteq> None)"
  by (simp add: Map_has_def Map_get_def)

lemma distinct_keys_set: "distinct_keys m \<Longrightarrow> distinct_keys (Map_set m k v)"
  by (simp add: distinct_keys_def Map_set_def distinct_update)

lemma distinct_keys_delete: "distinct_keys m \<Longrightarrow> distinct_keys (Map_delete m k)"
  by (simp add: distinct_keys_def Map_delete_def distinct_delete)

lemma entries_for_absent: "k \<notin> fst ` set m \<Longrightarrow> entries_for m k = 0"
  by (induction m) (auto simp: entries_for_def)

lemma entries_for_distinct:
  "distinct_keys m \<Longrightarrow> entries_for m k = (if Map_has m k then 1 else 0)"
proof (induction m)
  case Nil
  then show ?case by (simp add: entries_for_def Map_has_def)
next
  case (Cons a m)
  obtain k' v where a: "a = (k', v)" by (cases a)
  show ?case
  proof (cases "k' = k")
    case True
    with Cons.prems a have "k \<notin> fst ` set m" by (auto simp: distinct_keys_def)
    then have "entries_for m k = 0" by (rule entries_for_absent)
    with True a show ?thesis by (simp add: entries_for_def Map_has_def)
  next
    case False
    from Cons.prems have "distinct_keys m" by (simp add: distinct_keys_def)
    with Cons.IH have "entries_for m k = (if Map_has m k then 1 else 0)" by simp
    with False a show ?thesis by (simp add: entries_for_def Map_has_def)
  qed
qed

lemma emit_simps [simp]:
  "registry (emit fx s) = registry s"
  "effects (emit fx s) = effects s @ fx"
  "clients (emit fx s) = clients s"
  "clock (emit fx s) = clock s"
  by (simp_all add: emit_def)

lemma Date_now_simps [simp]:
  "registry (snd (Date_now w s)) = registry s"
  "effects (snd (Date_now w s)) = effects s"
  "clients (snd (Date_now w s)) = clients s"
  "fst (Date_now w s) = Date_toISOString w (clock s)"
  by (simp_all add: Date_now_def)

lemma subscribe_srv_exists:
  assumes "push_channel p = Some channel" "channel \<noteq> []"
    "truthy (push_signature p)" "truthy (push_timestamp p)"
    "Map_get (subs s) channel = Some entry"
  shows "subscribe_srv w (Some p) s =
           (Json 200 (JObj [(''status'', JStr ''exists''), (''channel'', JStr channel),
                            (''expires_in'', push_expires_in p),
                            (''createdAt'', JStr (createdAt entry))]), s)"
  using assms by (simp add: subscribe_srv_def)

lemma subscribeToChannel_exists:
  assumes "Map_has (active s) channel"
  shows "subscribeToChannel e w channel signature timestamp s =
           (Inr (status_result ''already_subscribed'' channel), s)"
  using assms by (simp add: subscribeToChannel_def subscribeToChannel_begin_def)

lemma subscribe_mgr_exists:
  assumes "push_channel p = Some channel" "channel \<noteq> []"
    "truthy (push_signature p)" "truthy (push_timestamp p)"
    "Map_has (active s) channel"
  shows "subscribe_mgr e w (Some p) s =
           (Json 200 (JObj [(''ok'', JBool True),
                            (''result'', status_result ''already_subscribed'' channel),
                            (''cometd'', JStr (cometd_url e))]), s)"
  using assms by (simp add: subscribe_mgr_def subscribeToChannel_exists)

lemma subscribe_srv_fresh:
  assumes "push_channel p = Some channel" "channel \<noteq> []"
    "truthy (push_signature p)" "truthy (push_timestamp p)"
    "Map_get (subs s) channel = None" "subscribe_error w channel = None"
  shows "subscribe_srv w (Some p) s =
           (Json 200 (JObj [(''status'', JStr ''subscribed''), (''channel'', JStr channel),
                            (''expires_in'', nullish_to_null (push_expires_in p))]),
            \<lparr>registry = Map_set (subs s) channel
                 \<lparr>client = clients s, subscription = clients s,
                  createdAt = Date_toISOString w (clock s)\<rparr>,
             effects = effects s @
               [ClientCreated (clients s) ''https://push.podio.com/faye'' 45 5,
                ExtensionAdded (clients s)
                  (outgoing_srv w channel (push_signature p) (push_timestamp p)),
                Subscribed (clients s) channel],
             clients = Suc (clients s), clock = Suc (clock s)\<rparr>)"
  using assms
  by (simp add: subscribe_srv_def createFayeClient_def Let_def Date_now_def emit_def)

lemma subscribeToChannel_begin_fresh:
  assumes "\<not> Map_has (active t) channel" "subscribe_error w channel = None"
  shows "subscribeToChannel_begin e w channel sig ts t =
           Awaiting (clients t)
             (emit [ClientCreated (clients t) (cometd_url e) 60 5,
                    ExtensionAdded (clients t) (outgoing_mgr w channel sig ts),
                    Subscribed (clients t) channel]
                (t\<lparr>clients := Suc (clients t)\<rparr>))"
  using assms by (simp add: subscribeToChannel_begin_def Let_def emit_def)

lemma subscribeToChannel_registry:
  "registry (snd (subscribeToChannel e w channel sig ts t)) =
     (if \<not> Map_has (active t) channel \<and> subscribe_error w channel = None
         \<and> confirmed_in_time w (clients t)
      then Map_set (active t) channel \<lparr>rec_client = clients t, rec_subscription = clients t\<rparr>
      else active t)"
  by (cases "subscribe_error w channel")
     (simp_all add: subscribeToChannel_def subscribeToChannel_begin_def
        subscribeToChannel_resume_def Let_def)

lemma subscribe_srv_registry:
  "registry (snd (subscribe_srv w req s)) =
     (case req of
        None \<Rightarrow> subs s
      | Some p \<Rightarrow>
         (case push_channel p of
            None \<Rightarrow> subs s
          | Some channel \<Rightarrow>
              if channel \<noteq> [] \<and> truthy (push_signature p) \<and> truthy (push_timestamp p)
                 \<and> Map_get (subs s) channel = None \<and> subscribe_error w channel = None
              then Map_set (subs s) channel
                     \<lparr>client = clients s, subscription = clients s,
                      createdAt = Date_toISOString w (clock s)\<rparr>
              else subs s))"
  by (auto simp: subscribe_srv_def createFayeClient_def Let_def Date_now_def emit_def
           split: option.splits)

lemma subscribe_mgr_registry:
  "registry (snd (subscribe_mgr e w req s)) =
     (case req of
        None \<Rightarrow> active s
      | Some p \<Rightarrow>
         (case push_channel p of
            None \<Rightarrow> active s
          | Some channel \<Rightarrow>
              if channel \<noteq> [] \<and> truthy (push_signature p) \<and> truthy (push_timestamp p)
              then registry (snd (subscribeToChannel e w channel (push_signature p)
                                    (push_timestamp p) s))
              else active s))"
  by (auto simp: subscribe_mgr_def Let_def split: option.splits prod.splits sum.splits)

lemma unsubscribeFromChannel_registry:
  "registry (snd (unsubscribeFromChannel w channel s)) =
     (if Map_has (active s) channel then Map_delete (active s) channel else active s)"
  by (auto simp: unsubscribeFromChannel_def Map_has_get Let_def split: option.splits)

lemma unsubscribe_mgr_registry:
  "registry (snd (unsubscribe_mgr w req s)) =
     (case req of
        None \<Rightarrow> active s
      | Some channel \<Rightarrow>
          if channel \<noteq> [] \<and> Map_has (active s) channel
          then Map_delete (active s) channel else active s)"
  by (auto simp: unsubscribe_mgr_def unsubscribeFromChannel_def Map_has_get Let_def
           split: option.splits prod.splits sum.splits)

lemma unsubscribe_srv_registry:
  "registry (snd (unsubscribe_srv w req s)) =
     (case req of
        None \<Rightarrow> subs s
      | Some channel \<Rightarrow>
         (case Map_get (subs s) channel of
            None \<Rightarrow> subs s
          | Some entry \<Rightarrow>
              if channel \<noteq> [] \<and> cancel_error w (subscription entry) = None
              then Map_delete (subs s) channel else subs s))"
  by (auto simp: unsubscribe_srv_def Let_def split: option.splits)

lemma posts_append: "posts (xs @ ys) = posts xs @ posts ys"
  by (induction xs rule: posts.induct) simp_all

lemma forwardToAVA_eq:
  "forwardToAVA e w payload s =
     ((case wait_for w (AVA_TOPIC_URL e) payload of Some d \<Rightarrow> Settles d (Inr ()) | None \<Rightarrow> Pending),
      if str_truthy (AVA_TOPIC_URL e) then emit [HttpPost (AVA_TOPIC_URL e) payload] s else s)"
  by (simp add: forwardToAVA_def axios_post_def wait_for_def split: promise.splits sum.splits)

lemma forwardToDebug_eq:
  "forwardToDebug e w payload s =
     ((case wait_for w (DEBUG_WEBHOOK_URL e) payload of
         Some d \<Rightarrow> Settles d (Inr ()) | None \<Rightarrow> Pending),
      if str_truthy (DEBUG_WEBHOOK_URL e)
      then emit [HttpPost (DEBUG_WEBHOOK_URL e) payload] s else s)"
  by (simp add: forwardToDebug_def axios_post_def wait_for_def split: promise.splits sum.splits)

lemma forwardToAVA_hook_state:
  "snd (forwardToAVA_hook e w payload s) = emit [HttpPost (AVA_TOPIC_URL e) payload] s"
  by (simp add: forwardToAVA_hook_def axios_post_def split: promise.splits sum.splits)

lemma fan_out_srv_eq:
  "fan_out_srv e w body s =
     (Inr (Send 200 ''OK''),
      s\<lparr>effects := effects s @ map (\<lambda>(u, p). HttpPost u p) (dispatches e body body)\<rparr>)"
  by (simp add: fan_out_srv_def forwardToAVA_eq forwardToDebug_eq dispatches_def emit_def)

lemma posts_map_HttpPost: "posts (map (\<lambda>(u, p). HttpPost u p) xs) = xs"
  by (induction xs) auto

lemma post_times_map_HttpPost:
  "post_times t (map (\<lambda>(u, p). HttpPost u p) xs) = map (\<lambda>(u, p). (t, u)) xs"
  by (induction xs) auto

lemma added_simps [simp]:
  "added s (s\<lparr>effects := effects s @ fx\<rparr>) = fx"
  "added s (s\<lparr>clock := c, effects := effects s @ fx\<rparr>) = fx"
  "added s (emit fx s) = fx"
  "added s s = []"
  by (simp_all add: added_def emit_def)

lemma await_waited:
  "await (case wo of Some d \<Rightarrow> Settles d (Inr ()) | None \<Rightarrow> Pending) s rest =
     (case wo of
        None \<Rightarrow> (Pending, s)
      | Some d \<Rightarrow>
          (case rest () (emit [Awaited d] s) of
             (Pending, s') \<Rightarrow> (Pending, s')
           | (Settles d' r, s') \<Rightarrow> (Settles (d + d') r, s')))"
  by (cases wo) (simp_all add: await_def)

lemma on_message_srv_eq:
  "on_message_srv e w channel msg s =
     (let to_ava = event_envelope_srv channel msg (Date_toISOString w (clock s));
          to_debug = event_envelope_srv channel msg (Date_toISOString w (Suc (clock s)));
          ava = (if str_truthy (AVA_TOPIC_URL e) then [HttpPost (AVA_TOPIC_URL e) to_ava] else []);
          debug = (if str_truthy (DEBUG_WEBHOOK_URL e)
                   then [HttpPost (DEBUG_WEBHOOK_URL e) to_debug] else [])
      in case wait_for w (AVA_TOPIC_URL e) to_ava of
           None \<Rightarrow> (Pending, s\<lparr>clock := Suc (clock s), effects := effects s @ ava\<rparr>)
         | Some d1 \<Rightarrow>
            (case wait_for w (DEBUG_WEBHOOK_URL e) to_debug of
               None \<Rightarrow>
                 (Pending, s\<lparr>clock := Suc (Suc (clock s)),
                             effects := effects s @ ava @ [Awaited d1] @ debug\<rparr>)
             | Some d2 \<Rightarrow>
                 (Settles (d1 + d2) (Inr ()),
                  s\<lparr>clock := Suc (Suc (clock s)),
                    effects := effects s @ ava @ [Awaited d1] @ debug @ [Awaited d2]\<rparr>)))"
  by (simp add: on_message_srv_def Date_now_def forwardToAVA_eq forwardToDebug_eq await_waited
        Let_def emit_def split: option.splits)

lemma on_message_mgr_eq:
  "on_message_mgr e w channel pushPayload s =
     (let envelope = event_envelope_mgr channel pushPayload (Date_toISOString w (clock s));
          ava = (if str_truthy (AVA_TOPIC_URL e) then [HttpPost (AVA_TOPIC_URL e) envelope] else []);
          debug = (if str_truthy (DEBUG_WEBHOOK_URL e)
                   then [HttpPost (DEBUG_WEBHOOK_URL e) envelope] else [])
      in case wait_for w (AVA_TOPIC_URL e) envelope of
           None \<Rightarrow> (Pending, s\<lparr>clock := Suc (clock s), effects := effects s @ ava\<rparr>)
         | Some d1 \<Rightarrow>
            (case wait_for w (DEBUG_WEBHOOK_URL e) envelope of
               None \<Rightarrow>
                 (Pending, s\<lparr>clock := Suc (clock s),
                             effects := effects s @ ava @ [Awaited d1] @ debug\<rparr>)
             | Some d2 \<Rightarrow>
                 (Settles (d1 + d2) (Inr ()),
                  s\<lparr>clock := Suc (clock s),
                    effects := effects s @ ava @ [Awaited d1] @ debug @ [Awaited d2]\<rparr>)))"
  by (simp add: on_message_mgr_def Date_now_def forwardToAVA_eq forwardToDebug_eq await_waited
        Let_def emit_def split: option.splits)

lemma on_message_registry:
  "registry (snd (on_message_srv e w channel msg s)) = registry s"
  "registry (snd (on_message_mgr e w channel msg s)) = registry s"
  by (simp_all add: on_message_srv_eq on_message_mgr_eq Let_def split: option.splits)

lemma get_prop_truthy: "truthy v \<Longrightarrow> \<exists>x. get_prop v k = Inr x"
  by (cases v) simp_all

lemma truthy_body_srv: "truthy (body_srv req)"
  by (simp add: body_srv_def)

lemma podio_push_srv_cases:
  "podio_push_srv e w req s =
     (if is_handshake_srv req
      then (case get_prop (body_srv req) ''challenge'' of
              Inl err \<Rightarrow> (Inl err, s)
            | Inr challenge \<Rightarrow>
                (Inr (Json 200 (handshake_body
                        (case APP_BASE_URL e of None \<Rightarrow> [] | Some u \<Rightarrow> u) challenge)), s))
      else verify_and_forward_srv e w (body_srv req) (x_podio_signature req) s)"
proof -
  obtain ty where ty: "get_prop (body_srv req) ''type'' = Inr ty"
    using get_prop_truthy [OF truthy_body_srv] by blast
  obtain c where c: "get_prop (body_srv req) ''challenge'' = Inr c"
    using get_prop_truthy [OF truthy_body_srv] by blast
  show ?thesis
    using ty c
    by (simp add: podio_push_srv_def is_handshake_srv_def Let_def body_srv_def [symmetric])
qed

lemma verify_and_forward_srv_eq:
  "verify_and_forward_srv e w body signature s =
     (if \<not> str_truthy signature then (Inr invalid_signature, s)
      else if validatePodioSignature_srv e w body signature = Inr True
           then fan_out_srv e w body (emit [SignatureChecked] s)
           else (Inr invalid_signature, emit [SignatureChecked] s))"
  by (cases "PODIO_PUSH_SECRET e")
     (auto simp: verify_and_forward_srv_def validatePodioSignature_srv_def createHmac_sha1_def)

lemma show_nat_digit: "n < 10 \<Longrightarrow> show_nat n = [digit_char n]"
  by (simp add: show_nat.simps)

lemma push_task1_simps [simp]:
  "push_channel push_task1 = Some ''/task/1''"
  "push_signature push_task1 = JStr ''abc''"
  "push_timestamp push_task1 = JNum 1700000000"
  "push_expires_in push_task1 = JUndefined"
  by (simp_all add: push_task1_def)

lemma initial_state_simps [simp]:
  "registry initial_state = []"
  "effects initial_state = []"
  "clients initial_state = 0"
  "clock initial_state = 0"
  by (simp_all add: initial_state_def)

lemma world_ok_simps [simp]:
  "subscribe_error world_ok c = None"
  "cancel_error world_ok h = None"
  "disconnect_error world_ok h = None"
  "confirmation_ms world_ok h = Some 120"
  "axios_post_outcome world_ok u p = Settles 40 (Inr ())"
  "Number_toString world_ok = show_int"
  "Date_toISOString world_ok 0 = ''2025-01-01T00:00:00Z''"
  "Date_toISOString world_ok (Suc 0) = ''2025-01-01T00:00:01Z''"
  by (simp_all add: world_ok_def show_nat_digit digit_char_def)

lemma world_hanging_simps [simp]:
  "axios_post_outcome world_hanging u p =
     (if u = Some ''https://ava.example/topic'' then Pending else Settles 40 (Inr ()))"
  "Date_toISOString world_hanging 0 = ''2025-01-01T00:00:00Z''"
  "Date_toISOString world_hanging (Suc 0) = ''2025-01-01T00:00:01Z''"
  by (simp_all add: world_hanging_def world_ok_def show_nat_digit digit_char_def)

lemma world_failing_simps [simp]:
  "subscribe_error world_failing c = None"
  "cancel_error world_failing h = Some (Error ''cancel failed'')"
  "disconnect_error world_failing h = Some (Error ''disconnect failed'')"
  "confirmation_ms world_failing h = None"
  "axios_post_outcome world_failing u p =
     (if u = Some ''https://ava.example/topic''
      then Settles 21000 (Inl (Error ''connect ETIMEDOUT'')) else Settles 40 (Inr ()))"
  "Number_toString world_failing = show_int"
  "Date_toISOString world_failing 0 = ''2025-01-01T00:00:00Z''"
  "Date_toISOString world_failing (Suc 0) = ''2025-01-01T00:00:01Z''"
  by (simp_all add: world_failing_def show_nat_digit digit_char_def)

lemma first_subscribe_srv:
  "subscribe_srv world_ok (Some push_task1) initial_state =
     (Json 200 (JObj [(''status'', JStr ''subscribed''), (''channel'', JStr ''/task/1''),
                      (''expires_in'', JNull)]),
      \<lparr>registry = [(''/task/1'', \<lparr>client = 0, subscription = 0,
                                  createdAt = ''2025-01-01T00:00:00Z''\<rparr>)],
       effects = [ClientCreated 0 ''https://push.podio.com/faye'' 45 5,
                  ExtensionAdded 0 (outgoing_srv world_ok ''/task/1'' (JStr ''abc'') (JNum 1700000000)),
                  Subscribed 0 ''/task/1''],
       clients = 1, clock = 1\<rparr>)"
  by (simp add: subscribe_srv_fresh [where channel = "''/task/1''"] Map_get_def Map_set_def)

lemma first_subscribe_mgr:
  "subscribeToChannel env_unset world_ok ''/task/1'' (JStr ''abc'') (JNum 1700000000) initial_state =
     (Inr (status_result ''subscribed'' ''/task/1''),
      \<lparr>registry = [(''/task/1'', \<lparr>rec_client = 0, rec_subscription = 0\<rparr>)],
       effects = [ClientCreated 0 ''https://podio.com:443/cometd'' 60 5,
                  ExtensionAdded 0 (outgoing_mgr world_ok ''/task/1'' (JStr ''abc'') (JNum 1700000000)),
                  Subscribed 0 ''/task/1''],
       clients = 1, clock = 0\<rparr>)"
  by (simp add: subscribeToChannel_def subscribeToChannel_begin_def subscribeToChannel_resume_def
        Map_has_def Map_set_def Let_def confirmed_in_time_def confirm_timeout_ms_def
        cometd_url_def env_unset_def emit_def)

lemma subscribed_task1_srv_eq:
  "subscribed_task1_srv =
     \<lparr>registry = [(''/task/1'', \<lparr>client = 0, subscription = 0,
                                  createdAt = ''2025-01-01T00:00:00Z''\<rparr>)],
      effects = [ClientCreated 0 ''https://push.podio.com/faye'' 45 5,
                 ExtensionAdded 0 (outgoing_srv world_ok ''/task/1'' (JStr ''abc'') (JNum 1700000000)),
                 Subscribed 0 ''/task/1''],
      clients = 1, clock = 1\<rparr>"
  by (simp add: subscribed_task1_srv_def first_subscribe_srv)

lemma subscribed_task1_mgr_eq:
  "subscribed_task1_mgr =
     \<lparr>registry = [(''/task/1'', \<lparr>rec_client = 0, rec_subscription = 0\<rparr>)],
      effects = [ClientCreated 0 ''https://podio.com:443/cometd'' 60 5,
                 ExtensionAdded 0 (outgoing_mgr world_ok ''/task/1'' (JStr ''abc'') (JNum 1700000000)),
                 Subscribed 0 ''/task/1''],
      clients = 1, clock = 0\<rparr>"
  by (simp add: subscribed_task1_mgr_def first_subscribe_mgr)

lemma first_subscribe_srv_failing:
  "subscribe_srv world_failing (Some push_task1) initial_state =
     (Json 200 (JObj [(''status'', JStr ''subscribed''), (''channel'', JStr ''/task/1''),
                      (''expires_in'', JNull)]),
      \<lparr>registry = [(''/task/1'', \<lparr>client = 0, subscription = 0,
                                  createdAt = ''2025-01-01T00:00:00Z''\<rparr>)],
       effects = [ClientCreated 0 ''https://push.podio.com/faye'' 45 5,
                  ExtensionAdded 0 (outgoing_srv world_failing ''/task/1'' (JStr ''abc'') (JNum 1700000000)),
                  Subscribed 0 ''/task/1''],
       clients = 1, clock = 1\<rparr>)"
  by (simp add: subscribe_srv_fresh [where channel = "''/task/1''"] Map_get_def Map_set_def)

lemma unsubscribeFromChannel_found:
  assumes "Map_get (active t) channel = Some entry"
  shows "unsubscribeFromChannel w channel t =
           (Inr (status_result ''unsubscribed'' channel),
            t\<lparr>effects := effects t @ [SubscriptionCancel (rec_subscription entry),
                                       ClientDisconnect (rec_client entry)],
              registry := Map_delete (active t) channel\<rparr>)"
  using assms
  by (cases "cancel_error w (rec_subscription entry)"; cases "disconnect_error w (rec_client entry)")
     (simp_all add: unsubscribeFromChannel_def Let_def emit_def)

lemma env_set_simps [simp]:
  "PODIO_PUSH_SECRET env_set = Some ''s3cret''"
  "APP_BASE_URL env_set = Some ''https://relay.example''"
  "AVA_TOPIC_URL env_set = Some ''https://ava.example/topic''"
  "DEBUG_WEBHOOK_URL env_set = Some ''https://debug.example/hook''"
  "PODIO_COMETD_URL env_set = None"
  "NODE_ENV env_set = None"
  by (simp_all add: env_set_def)

lemma env_unset_simps [simp]:
  "PODIO_PUSH_SECRET env_unset = None"
  "APP_BASE_URL env_unset = None"
  "AVA_TOPIC_URL env_unset = None"
  "DEBUG_WEBHOOK_URL env_unset = None"
  "PODIO_COMETD_URL env_unset = None"
  "NODE_ENV env_unset = None"
  by (simp_all add: env_unset_def)

lemma get_prop_obj_truthy: "get_prop v k = Inr (JStr x) \<Longrightarrow> truthy v"
  by (cases v) simp_all

lemma body_srv_of_typed:
  "get_prop (req_body req) ''type'' = Inr (JStr x) \<Longrightarrow> body_srv req = req_body req"
  by (simp add: body_srv_def get_prop_obj_truthy)

lemma handshake_body_challenge:
  "get_prop (handshake_body base challenge) ''challenge'' = Inr challenge"
  by (simp add: handshake_body_def)

lemma verify_and_forward_srv_posts:
  "posts (effects (snd (verify_and_forward_srv e w body signature s))) =
     posts (effects s) @
       (if str_truthy signature \<and> validatePodioSignature_srv e w body signature = Inr True
        then dispatches e body body else [])"
  by (simp add: verify_and_forward_srv_eq fan_out_srv_eq posts_append posts_map_HttpPost)

lemma podio_push_srv_posts:
  "posts (effects (snd (podio_push_srv e w req s))) =
     posts (effects s) @
       (if \<not> is_handshake_srv req \<and> str_truthy (x_podio_signature req)
           \<and> validatePodioSignature_srv e w (body_srv req) (x_podio_signature req) = Inr True
        then dispatches e (body_srv req) (body_srv req) else [])"
proof (cases "is_handshake_srv req")
  case True
  then show ?thesis
    by (simp add: podio_push_srv_cases split: sum.splits)
next
  case False
  then show ?thesis
    by (simp add: podio_push_srv_cases verify_and_forward_srv_posts)
qed

lemma world_ok_digest [simp]:
  "hmac_sha1_hex world_ok key data = key @ '':'' @ data"
  "JSON_stringify world_ok v = js_String show_int v"
  by (simp_all add: world_ok_def)

lemma event_request_simps [simp]:
  "req_body (event_request signature)
     = JObj [(''type'', JStr ''item.update''), (''item_id'', JNum 7)]"
  "x_podio_signature (event_request signature) = signature"
  "body_srv (event_request signature)
     = JObj [(''type'', JStr ''item.update''), (''item_id'', JNum 7)]"
  "\<not> is_handshake_srv (event_request signature)"
  by (simp_all add: event_request_def body_srv_def is_handshake_srv_def)

lemma bare_handshake_request_simps [simp]:
  "req_body (bare_handshake_request signature)
     = JObj [(''type'', JStr ''subscription_verification'')]"
  "x_podio_signature (bare_handshake_request signature) = signature"
  by (simp_all add: bare_handshake_request_def)

lemma validatePodioSignature_srv_total:
  "validatePodioSignature_srv e w body signature =
     Inr (Some (hmac_sha1_hex w (case PODIO_PUSH_SECRET e of None \<Rightarrow> [] | Some k \<Rightarrow> k)
                  (JSON_stringify w body)) = signature)"
  by (cases "PODIO_PUSH_SECRET e") (auto simp: validatePodioSignature_srv_def createHmac_sha1_def)

lemma validate_srv_sample:
  "validatePodioSignature_srv env_set world_ok (JObj kvs) (Some signature)
     = Inr (signature = ''s3cret:[object Object]'')"
  by (auto simp: validatePodioSignature_srv_total)

lemma promise_no_error:
  "(case wo of Some d \<Rightarrow> Settles d (Inr ()) | None \<Rightarrow> Pending) \<noteq> Settles d' (Inl err)"
  by (cases wo) simp_all

lemma podio_push_srv_registry: "registry (snd (podio_push_srv e w req s)) = registry s"
  by (simp add: podio_push_srv_cases verify_and_forward_srv_eq fan_out_srv_eq split: sum.splits)

lemma fan_out_hook_eq:
  "fan_out_hook e w body s =
     (Inr (Send 200 ''OK''),
      s\<lparr>effects := effects s @ [HttpPost (AVA_TOPIC_URL e) body]
           @ (if str_truthy (DEBUG_WEBHOOK_URL e) then [HttpPost (DEBUG_WEBHOOK_URL e) body]
              else [])\<rparr>)"
  by (simp add: fan_out_hook_def forwardToAVA_hook_state forwardToDebug_eq emit_def split_def)

lemma verify_and_forward_hook_registry:
  "registry (snd (verify_and_forward_hook e w body signature s)) = registry s"
  by (simp add: verify_and_forward_hook_def fan_out_hook_eq split: sum.splits)

lemma podio_push_hook_registry: "registry (snd (podio_push_hook e w req s)) = registry s"
  by (simp add: podio_push_hook_def Let_def verify_and_forward_hook_registry split: sum.splits)

lemma distinct_keys_initial: "distinct_keys (registry initial_state)"
  by (simp add: distinct_keys_def)

lemma distinct_keys_srv:
  assumes "distinct_keys (subs s)"
  shows "distinct_keys (subs (snd (subscribe_srv w req s)))"
    and "distinct_keys (subs (snd (unsubscribe_srv w chan s)))"
  using assms
  by (auto simp: subscribe_srv_registry unsubscribe_srv_registry distinct_keys_set
        distinct_keys_delete split: option.splits)

lemma distinct_keys_mgr:
  assumes "distinct_keys (active t)"
  shows "distinct_keys (active (snd (subscribe_mgr e w req t)))"
    and "distinct_keys (active (snd (unsubscribe_mgr w chan t)))"
  using assms
  by (auto simp: subscribe_mgr_registry subscribeToChannel_registry unsubscribe_mgr_registry
        distinct_keys_set distinct_keys_delete split: option.splits)




















lemma sample_messages [simp]:
  "msg_channel subscribe_task1 = ''/meta/subscribe''"
  "msg_subscription subscribe_task1 = JStr ''/task/1''"
  "msg_channel subscribe_task2 = ''/meta/subscribe''"
  "msg_subscription subscribe_task2 = JStr ''/task/2''"
  "msg_channel connect_message = ''/meta/connect''"
  by (simp_all add: subscribe_task1_def subscribe_task2_def connect_message_def)

section \<open>C1: the scope of the outgoing extension\<close>




section \<open>C2: a second subscribe for the same channel\<close>

text \<open>
  C2, as the code has it. A subscribe request that carries channel, signature and
  timestamp, for a channel the registry already holds, is answered without any change of
  state: no client is created, nothing is subscribed, and the registry keeps its one
  entry for the channel. The status of the answer is \<^verbatim>\<open>exists\<close> in the \<^verbatim>\<open>/subscribe\<close> handler
  of \<^verbatim>\<open>src/server.js\<close> and \<^verbatim>\<open>already_subscribed\<close> in \<^verbatim>\<open>subscribeToChannel\<close> of \<^verbatim>\<open>part_000\<close>.
\<close>

theorem C2_duplicate_subscribe:
  assumes "push_channel p = Some channel" and "channel \<noteq> []"
    and "truthy (push_signature p)" and "truthy (push_timestamp p)"
  shows "(\<forall>entry. Map_get (subs s) channel = Some entry \<longrightarrow>
            subscribe_srv w (Some p) s =
              (Json 200 (JObj [(''status'', JStr ''exists''), (''channel'', JStr channel),
                               (''expires_in'', push_expires_in p),
                               (''createdAt'', JStr (createdAt entry))]), s))
       \<and> (Map_has (subs s) channel \<and> distinct_keys (subs s) \<longrightarrow>
            entries_for (subs (snd (subscribe_srv w (Some p) s))) channel = 1)
       \<and> (Map_has (active t) channel \<longrightarrow>
            subscribeToChannel e w channel (push_signature p) (push_timestamp p) t =
              (Inr (status_result ''already_subscribed'' channel), t)
            \<and> subscribe_mgr e w (Some p) t =
              (Json 200 (JObj [(''ok'', JBool True),
                               (''result'', status_result ''already_subscribed'' channel),
                               (''cometd'', JStr (cometd_url e))]), t))
       \<and> (Map_has (active t) channel \<and> distinct_keys (active t) \<longrightarrow>
            entries_for (active (snd (subscribe_mgr e w (Some p) t))) channel = 1)"
proof (intro conjI allI impI)
  fix entry
  assume "Map_get (subs s) channel = Some entry"
  with assms show "subscribe_srv w (Some p) s =
      (Json 200 (JObj [(''status'', JStr ''exists''), (''channel'', JStr channel),
                       (''expires_in'', push_expires_in p),
                       (''createdAt'', JStr (createdAt entry))]), s)"
    by (rule subscribe_srv_exists)
next
  assume h: "Map_has (subs s) channel \<and> distinct_keys (subs s)"
  then obtain entry where "Map_get (subs s) channel = Some entry"
    by (auto simp: Map_has_get)
  with assms have "snd (subscribe_srv w (Some p) s) = s"
    by (simp add: subscribe_srv_exists)
  with h show "entries_for (subs (snd (subscribe_srv w (Some p) s))) channel = 1"
    by (simp add: entries_for_distinct)
next
  assume "Map_has (active t) channel"
  then show "subscribeToChannel e w channel (push_signature p) (push_timestamp p) t =
      (Inr (status_result ''already_subscribed'' channel), t)"
    by (rule subscribeToChannel_exists)
next
  assume "Map_has (active t) channel"
  with assms show "subscribe_mgr e w (Some p) t =
      (Json 200 (JObj [(''ok'', JBool True),
                       (''result'', status_result ''already_subscribed'' channel),
                       (''cometd'', JStr (cometd_url e))]), t)"
    by (rule subscribe_mgr_exists)
next
  assume h: "Map_has (active t) channel \<and> distinct_keys (active t)"
  with assms have "snd (subscribe_mgr e w (Some p) t) = t"
    by (simp add: subscribe_mgr_exists)
  with h show "entries_for (active (snd (subscribe_mgr e w (Some p) t))) channel = 1"
    by (simp add: entries_for_distinct)
qed

text \<open>
  The request of the end-to-end scenarios, served a second time, in both programs.
\<close>

theorem C2_duplicate_subscribe_witness:
  "subscribe_srv world_ok (Some push_task1) subscribed_task1_srv
     = (Json 200 (JObj [(''status'', JStr ''exists''), (''channel'', JStr ''/task/1''),
                        (''expires_in'', JUndefined),
                        (''createdAt'', JStr ''2025-01-01T00:00:00Z'')]),
        subscribed_task1_srv)
   \<and> entries_for (subs (snd (subscribe_srv world_ok (Some push_task1) subscribed_task1_srv)))
        ''/task/1'' = 1
   \<and> subscribe_mgr env_unset world_ok (Some push_task1) subscribed_task1_mgr
     = (Json 200 (JObj [(''ok'', JBool True),
                        (''result'', status_result ''already_subscribed'' ''/task/1''),
                        (''cometd'', JStr ''https://podio.com:443/cometd'')]),
        subscribed_task1_mgr)
   \<and> entries_for (active (snd (subscribe_mgr env_unset world_ok (Some push_task1)
                                 subscribed_task1_mgr))) ''/task/1'' = 1"
proof -
  have get: "Map_get (subs subscribed_task1_srv) ''/task/1'' =
      Some \<lparr>client = 0, subscription = 0, createdAt = ''2025-01-01T00:00:00Z''\<rparr>"
    by (simp add: subscribed_task1_srv_eq Map_get_def)
  have has: "Map_has (subs subscribed_task1_srv) ''/task/1''"
    "distinct_keys (subs subscribed_task1_srv)"
    "Map_has (active subscribed_task1_mgr) ''/task/1''"
    "distinct_keys (active subscribed_task1_mgr)"
    by (simp_all add: subscribed_task1_srv_eq subscribed_task1_mgr_eq Map_has_def
          distinct_keys_def)
  have url: "cometd_url env_unset = ''https://podio.com:443/cometd''"
    by (simp add: cometd_url_def env_unset_def)
  note C2 = C2_duplicate_subscribe
    [of push_task1 "''/task/1''" subscribed_task1_srv world_ok subscribed_task1_mgr env_unset]
  from C2 [THEN conjunct1] get
  have a: "subscribe_srv world_ok (Some push_task1) subscribed_task1_srv
      = (Json 200 (JObj [(''status'', JStr ''exists''), (''channel'', JStr ''/task/1''),
                         (''expires_in'', JUndefined),
                         (''createdAt'', JStr ''2025-01-01T00:00:00Z'')]),
         subscribed_task1_srv)"
    by simp
  from C2 [THEN conjunct2, THEN conjunct1] has
  have b: "entries_for (subs (snd (subscribe_srv world_ok (Some push_task1)
                                     subscribed_task1_srv))) ''/task/1'' = 1"
    by simp
  from C2 [THEN conjunct2, THEN conjunct2, THEN conjunct1] has url
  have c: "subscribe_mgr env_unset world_ok (Some push_task1) subscribed_task1_mgr
      = (Json 200 (JObj [(''ok'', JBool True),
                         (''result'', status_result ''already_subscribed'' ''/task/1''),
                         (''cometd'', JStr ''https://podio.com:443/cometd'')]),
         subscribed_task1_mgr)"
    by simp
  from C2 [THEN conjunct2, THEN conjunct2, THEN conjunct2] has
  have d: "entries_for (active (snd (subscribe_mgr env_unset world_ok (Some push_task1)
                                       subscribed_task1_mgr))) ''/task/1'' = 1"
    by simp
  from a b c d show ?thesis by (intro conjI)
qed

text \<open>
  C2 as stated fails in \<^verbatim>\<open>part_000\<close>: called for \<^verbatim>\<open>/task/1\<close> when the registry holds it,
  \<^verbatim>\<open>subscribeToChannel\<close> returns the status \<^verbatim>\<open>already_subscribed\<close>, not \<^verbatim>\<open>exists\<close>.
\<close>

theorem C2_counterexample:
  "fst (subscribeToChannel env_unset world_ok ''/task/1'' (JStr ''abc'') (JNum 1700000000)
          subscribed_task1_mgr)
     = Inr (JObj [(''status'', JStr ''already_subscribed''), (''channel'', JStr ''/task/1'')])
   \<and> fst (subscribeToChannel env_unset world_ok ''/task/1'' (JStr ''abc'') (JNum 1700000000)
          subscribed_task1_mgr)
     \<noteq> Inr (JObj [(''status'', JStr ''exists''), (''channel'', JStr ''/task/1'')])"
  by (simp add: subscribed_task1_mgr_eq subscribeToChannel_exists Map_has_def status_result_def)

section \<open>C3: registry entry and confirmation\<close>

text \<open>
  C3, as the code has it. For a subscribe request with channel, signature and timestamp,
  for a channel the registry does not hold, where \<^verbatim>\<open>client.subscribe\<close> does not throw:
  \<^verbatim>\<open>subscribeToChannel\<close> (\<^verbatim>\<open>part_000\<close>) reaches its wait for the confirmation with the registry
  as it was, so without an entry for the channel. When the bus confirms within 15000 ms
  the entry is inserted and the result is \<^verbatim>\<open>subscribed\<close>; otherwise the call throws
  \<^verbatim>\<open>Subscribe timeout (no confirmation received)\<close>, the route handler answers 500 with that
  message, and the registry is what it was, without an entry for the channel. The
  \<^verbatim>\<open>/subscribe\<close> handler of \<^verbatim>\<open>src/server.js\<close> inserts the entry and answers \<^verbatim>\<open>subscribed\<close> at
  once, whatever the bus does, and the settling of the subscription changes nothing.
\<close>

theorem C3_subscribe_confirmation:
  assumes "push_channel p = Some channel" and "channel \<noteq> []"
    and "truthy (push_signature p)" and "truthy (push_timestamp p)"
    and "subscribe_error w channel = None"
  shows "(\<not> Map_has (active t) channel \<longrightarrow>
           (\<exists>t1. subscribeToChannel_begin e w channel (push_signature p) (push_timestamp p) t
                    = Awaiting (clients t) t1
                  \<and> active t1 = active t)
           \<and> (confirmed_in_time w (clients t) \<longrightarrow>
                fst (subscribeToChannel e w channel (push_signature p) (push_timestamp p) t)
                  = Inr (status_result ''subscribed'' channel)
                \<and> Map_get (active (snd (subscribeToChannel e w channel (push_signature p)
                                          (push_timestamp p) t))) channel
                  = Some \<lparr>rec_client = clients t, rec_subscription = clients t\<rparr>)
           \<and> (\<not> confirmed_in_time w (clients t) \<longrightarrow>
                fst (subscribeToChannel e w channel (push_signature p) (push_timestamp p) t)
                  = Inl (Error ''Subscribe timeout (no confirmation received)'')
                \<and> fst (subscribe_mgr e w (Some p) t)
                  = Json 500 (JObj [(''ok'', JBool False),
                        (''error'', JStr ''Subscribe timeout (no confirmation received)'')])
                \<and> active (snd (subscribe_mgr e w (Some p) t)) = active t
                \<and> Map_get (active (snd (subscribe_mgr e w (Some p) t))) channel = None))
       \<and> (Map_get (subs s) channel = None \<longrightarrow>
            fst (subscribe_srv w (Some p) s)
              = Json 200 (JObj [(''status'', JStr ''subscribed''), (''channel'', JStr channel),
                                (''expires_in'', nullish_to_null (push_expires_in p))])
            \<and> Map_get (subs (snd (subscribe_srv w (Some p) s))) channel
              = Some \<lparr>client = clients s, subscription = clients s,
                      createdAt = Date_toISOString w (clock s)\<rparr>
            \<and> (\<forall>confirmed. subscription_settled_srv confirmed (snd (subscribe_srv w (Some p) s))
                  = snd (subscribe_srv w (Some p) s)))"
proof (intro conjI impI)
  assume fresh: "\<not> Map_has (active t) channel"
  from fresh assms(5)
  show "\<exists>t1. subscribeToChannel_begin e w channel (push_signature p) (push_timestamp p) t
               = Awaiting (clients t) t1 \<and> active t1 = active t"
    by (simp add: subscribeToChannel_begin_fresh)
next
  assume fresh: "\<not> Map_has (active t) channel" and ok: "confirmed_in_time w (clients t)"
  from fresh ok assms(5)
  show "fst (subscribeToChannel e w channel (push_signature p) (push_timestamp p) t)
          = Inr (status_result ''subscribed'' channel)"
    by (simp add: subscribeToChannel_def subscribeToChannel_begin_fresh
          subscribeToChannel_resume_def)
  from fresh ok assms(5)
  show "Map_get (active (snd (subscribeToChannel e w channel (push_signature p)
                                (push_timestamp p) t))) channel
          = Some \<lparr>rec_client = clients t, rec_subscription = clients t\<rparr>"
    by (simp add: subscribeToChannel_registry Map_get_set)
next
  assume fresh: "\<not> Map_has (active t) channel" and no: "\<not> confirmed_in_time w (clients t)"
  from fresh no assms(5)
  have r: "fst (subscribeToChannel e w channel (push_signature p) (push_timestamp p) t)
          = Inl (Error ''Subscribe timeout (no confirmation received)'')"
    by (simp add: subscribeToChannel_def subscribeToChannel_begin_fresh
          subscribeToChannel_resume_def)
  then show "fst (subscribeToChannel e w channel (push_signature p) (push_timestamp p) t)
          = Inl (Error ''Subscribe timeout (no confirmation received)'')" .
  from r assms(1-4)
  show "fst (subscribe_mgr e w (Some p) t)
          = Json 500 (JObj [(''ok'', JBool False),
                (''error'', JStr ''Subscribe timeout (no confirmation received)'')])"
    by (cases "subscribeToChannel e w channel (push_signature p) (push_timestamp p) t")
       (simp add: subscribe_mgr_def internal_error_mgr_def)
  from no assms(1-4)
  show reg: "active (snd (subscribe_mgr e w (Some p) t)) = active t"
    by (simp add: subscribe_mgr_registry subscribeToChannel_registry)
  from fresh show "Map_get (active (snd (subscribe_mgr e w (Some p) t))) channel = None"
    by (simp add: reg Map_has_get)
next
  assume fresh: "Map_get (subs s) channel = None"
  from fresh assms
  show "fst (subscribe_srv w (Some p) s)
          = Json 200 (JObj [(''status'', JStr ''subscribed''), (''channel'', JStr channel),
                            (''expires_in'', nullish_to_null (push_expires_in p))])"
    by (simp add: subscribe_srv_fresh)
  from fresh assms
  show "Map_get (subs (snd (subscribe_srv w (Some p) s))) channel
          = Some \<lparr>client = clients s, subscription = clients s,
                  createdAt = Date_toISOString w (clock s)\<rparr>"
    by (simp add: subscribe_srv_fresh Map_get_set)
  show "\<forall>confirmed. subscription_settled_srv confirmed (snd (subscribe_srv w (Some p) s))
          = snd (subscribe_srv w (Some p) s)"
    by (simp add: subscription_settled_srv_def)
qed

text \<open>
  The request of the end-to-end scenarios on a fresh process: the bus never confirms
  (first, second, third, fifth and sixth line) or confirms after 120 ms (fourth line).
\<close>

theorem C3_subscribe_confirmation_witness:
  "fst (subscribeToChannel env_unset world_failing ''/task/1'' (JStr ''abc'') (JNum 1700000000)
          initial_state)
     = Inl (Error ''Subscribe timeout (no confirmation received)'')
   \<and> fst (subscribe_mgr env_unset world_failing (Some push_task1) initial_state)
     = Json 500 (JObj [(''ok'', JBool False),
                       (''error'', JStr ''Subscribe timeout (no confirmation received)'')])
   \<and> active (snd (subscribe_mgr env_unset world_failing (Some push_task1) initial_state)) = []
   \<and> fst (subscribeToChannel env_unset world_ok ''/task/1'' (JStr ''abc'') (JNum 1700000000)
          initial_state)
     = Inr (status_result ''subscribed'' ''/task/1'')
   \<and> fst (subscribe_srv world_failing (Some push_task1) initial_state)
     = Json 200 (JObj [(''status'', JStr ''subscribed''), (''channel'', JStr ''/task/1''),
                       (''expires_in'', JNull)])
   \<and> Map_get (subs (snd (subscribe_srv world_failing (Some push_task1) initial_state))) ''/task/1''
     = Some \<lparr>client = 0, subscription = 0, createdAt = ''2025-01-01T00:00:00Z''\<rparr>"
proof -
  have fresh: "\<not> Map_has (active initial_state) ''/task/1''"
    "Map_get (subs initial_state) ''/task/1'' = None"
    by (simp_all add: Map_has_def Map_get_def)
  have late: "\<not> confirmed_in_time world_failing 0"
    by (simp add: confirmed_in_time_def)
  have early: "confirmed_in_time world_ok 0"
    by (simp add: confirmed_in_time_def confirm_timeout_ms_def)
  note failing = C3_subscribe_confirmation
    [of push_task1 "''/task/1''" world_failing initial_state env_unset initial_state]
  note ok = C3_subscribe_confirmation
    [of push_task1 "''/task/1''" world_ok initial_state env_unset initial_state]
  from failing fresh late
  have a: "fst (subscribeToChannel env_unset world_failing ''/task/1'' (JStr ''abc'')
                  (JNum 1700000000) initial_state)
             = Inl (Error ''Subscribe timeout (no confirmation received)'')"
    and b: "fst (subscribe_mgr env_unset world_failing (Some push_task1) initial_state)
             = Json 500 (JObj [(''ok'', JBool False),
                  (''error'', JStr ''Subscribe timeout (no confirmation received)'')])"
    and c: "active (snd (subscribe_mgr env_unset world_failing (Some push_task1) initial_state))
             = []"
    and e: "fst (subscribe_srv world_failing (Some push_task1) initial_state)
             = Json 200 (JObj [(''status'', JStr ''subscribed''), (''channel'', JStr ''/task/1''),
                               (''expires_in'', JNull)])"
    and f: "Map_get (subs (snd (subscribe_srv world_failing (Some push_task1) initial_state)))
               ''/task/1''
             = Some \<lparr>client = 0, subscription = 0, createdAt = ''2025-01-01T00:00:00Z''\<rparr>"
    by simp_all
  from ok fresh early
  have d: "fst (subscribeToChannel env_unset world_ok ''/task/1'' (JStr ''abc'')
                  (JNum 1700000000) initial_state)
             = Inr (status_result ''subscribed'' ''/task/1'')"
    by simp
  from a b c d e f show ?thesis by (intro conjI)
qed

text \<open>
  C3 as stated fails in both programs. In \<^verbatim>\<open>part_000\<close> the registry is empty while
  \<^verbatim>\<open>subscribeToChannel\<close> waits for the confirmation: no entry is inserted before the bus
  confirms. In \<^verbatim>\<open>src/server.js\<close>, with a bus that never confirms, the answer is
  \<^verbatim>\<open>subscribed\<close>, and the entry is still in the registry after the subscription has
  failed.
\<close>

theorem C3_counterexample:
  "subscribeToChannel_begin env_unset world_ok ''/task/1'' (JStr ''abc'') (JNum 1700000000)
       initial_state
     = Awaiting 0
         \<lparr>registry = [],
          effects = [ClientCreated 0 ''https://podio.com:443/cometd'' 60 5,
                     ExtensionAdded 0 (outgoing_mgr world_ok ''/task/1'' (JStr ''abc'') (JNum 1700000000)),
                     Subscribed 0 ''/task/1''],
          clients = 1, clock = 0\<rparr>
   \<and> fst (subscribe_srv world_failing (Some push_task1) initial_state)
     = Json 200 (JObj [(''status'', JStr ''subscribed''), (''channel'', JStr ''/task/1''),
                       (''expires_in'', JNull)])
   \<and> Map_get (subs (subscription_settled_srv False
                      (snd (subscribe_srv world_failing (Some push_task1) initial_state))))
        ''/task/1''
     = Some \<lparr>client = 0, subscription = 0, createdAt = ''2025-01-01T00:00:00Z''\<rparr>"
  by (simp add: first_subscribe_srv_failing subscription_settled_srv_def Map_get_def
        subscribeToChannel_begin_def Map_has_def Let_def cometd_url_def env_unset_def emit_def)

section \<open>C4: unsubscribe\<close>

text \<open>
  C4, as the code has it. \<^verbatim>\<open>unsubscribeFromChannel\<close> (\<^verbatim>\<open>part_000\<close>) returns \<^verbatim>\<open>not_found\<close> and
  leaves the state as it is when the registry has no entry for the channel; when it has
  one it calls \<^verbatim>\<open>cancel\<close> and \<^verbatim>\<open>disconnect\<close>, removes the entry and returns \<^verbatim>\<open>unsubscribed\<close>,
  whether or not either call throws. The \<^verbatim>\<open>/unsubscribe\<close> handler of \<^verbatim>\<open>src/server.js\<close> answers
  \<^verbatim>\<open>not_found\<close> in the same way; for an entry it calls \<^verbatim>\<open>cancel\<close>, and it removes the entry and
  answers \<^verbatim>\<open>unsubscribed\<close> when the call returns, while it answers 500 with the error's
  message and keeps the entry when the call throws.
\<close>

theorem C4_unsubscribe:
  "(Map_get (active t) channel = None \<longrightarrow>
      unsubscribeFromChannel w channel t = (Inr (status_result ''not_found'' channel), t))
   \<and> (\<forall>entry. Map_get (active t) channel = Some entry \<longrightarrow>
        fst (unsubscribeFromChannel w channel t) = Inr (status_result ''unsubscribed'' channel)
        \<and> effects (snd (unsubscribeFromChannel w channel t))
            = effects t @ [SubscriptionCancel (rec_subscription entry),
                           ClientDisconnect (rec_client entry)]
        \<and> Map_get (active (snd (unsubscribeFromChannel w channel t))) channel = None)
   \<and> (channel \<noteq> [] \<and> Map_get (subs s) channel = None \<longrightarrow>
        unsubscribe_srv w (Some channel) s
          = (Json 200 (JObj [(''status'', JStr ''not_found''), (''channel'', JStr channel)]), s))
   \<and> (\<forall>entry. channel \<noteq> [] \<and> Map_get (subs s) channel = Some entry
          \<and> cancel_error w (subscription entry) = None \<longrightarrow>
        fst (unsubscribe_srv w (Some channel) s)
          = Json 200 (JObj [(''status'', JStr ''unsubscribed''), (''channel'', JStr channel)])
        \<and> effects (snd (unsubscribe_srv w (Some channel) s))
            = effects s @ [SubscriptionCancel (subscription entry)]
        \<and> Map_get (subs (snd (unsubscribe_srv w (Some channel) s))) channel = None)
   \<and> (\<forall>entry err. channel \<noteq> [] \<and> Map_get (subs s) channel = Some entry
          \<and> cancel_error w (subscription entry) = Some err \<longrightarrow>
        fst (unsubscribe_srv w (Some channel) s)
          = Json 500 (JObj [(''error'', JStr (message_of err))])
        \<and> effects (snd (unsubscribe_srv w (Some channel) s))
            = effects s @ [SubscriptionCancel (subscription entry)]
        \<and> subs (snd (unsubscribe_srv w (Some channel) s)) = subs s)"
proof (intro conjI allI impI)
  assume "Map_get (active t) channel = None"
  then show "unsubscribeFromChannel w channel t = (Inr (status_result ''not_found'' channel), t)"
    by (simp add: unsubscribeFromChannel_def)
next
  fix entry
  assume found: "Map_get (active t) channel = Some entry"
  note eq = unsubscribeFromChannel_found [OF found, of w]
  show "fst (unsubscribeFromChannel w channel t) = Inr (status_result ''unsubscribed'' channel)"
    by (simp add: eq)
  show "effects (snd (unsubscribeFromChannel w channel t))
          = effects t @ [SubscriptionCancel (rec_subscription entry),
                         ClientDisconnect (rec_client entry)]"
    by (simp add: eq)
  show "Map_get (active (snd (unsubscribeFromChannel w channel t))) channel = None"
    by (simp add: eq Map_get_delete)
next
  assume "channel \<noteq> [] \<and> Map_get (subs s) channel = None"
  then show "unsubscribe_srv w (Some channel) s
          = (Json 200 (JObj [(''status'', JStr ''not_found''), (''channel'', JStr channel)]), s)"
    by (simp add: unsubscribe_srv_def)
next
  fix entry
  assume h: "channel \<noteq> [] \<and> Map_get (subs s) channel = Some entry
               \<and> cancel_error w (subscription entry) = None"
  then show "fst (unsubscribe_srv w (Some channel) s)
          = Json 200 (JObj [(''status'', JStr ''unsubscribed''), (''channel'', JStr channel)])"
    by (simp add: unsubscribe_srv_def Let_def)
  from h show "effects (snd (unsubscribe_srv w (Some channel) s))
            = effects s @ [SubscriptionCancel (subscription entry)]"
    by (simp add: unsubscribe_srv_def Let_def)
  from h show "Map_get (subs (snd (unsubscribe_srv w (Some channel) s))) channel = None"
    by (simp add: unsubscribe_srv_registry Map_get_delete)
next
  fix entry err
  assume h: "channel \<noteq> [] \<and> Map_get (subs s) channel = Some entry
               \<and> cancel_error w (subscription entry) = Some err"
  then show "fst (unsubscribe_srv w (Some channel) s)
          = Json 500 (JObj [(''error'', JStr (message_of err))])"
    by (simp add: unsubscribe_srv_def Let_def)
  from h show "effects (snd (unsubscribe_srv w (Some channel) s))
            = effects s @ [SubscriptionCancel (subscription entry)]"
    by (simp add: unsubscribe_srv_def Let_def)
  from h show "subs (snd (unsubscribe_srv w (Some channel) s)) = subs s"
    by (simp add: unsubscribe_srv_registry)
qed

text \<open>
  Unsubscribing \<^verbatim>\<open>/task/1\<close> on a fresh process and after the subscription of the end-to-end
  scenarios, with \<^verbatim>\<open>cancel\<close> and \<^verbatim>\<open>disconnect\<close> throwing and with both returning.
\<close>

theorem C4_unsubscribe_witness:
  "unsubscribeFromChannel world_failing ''/task/1'' initial_state
     = (Inr (status_result ''not_found'' ''/task/1''), initial_state)
   \<and> fst (unsubscribeFromChannel world_failing ''/task/1'' subscribed_task1_mgr)
     = Inr (status_result ''unsubscribed'' ''/task/1'')
   \<and> effects (snd (unsubscribeFromChannel world_failing ''/task/1'' subscribed_task1_mgr))
     = effects subscribed_task1_mgr @ [SubscriptionCancel 0, ClientDisconnect 0]
   \<and> Map_get (active (snd (unsubscribeFromChannel world_failing ''/task/1''
                              subscribed_task1_mgr))) ''/task/1'' = None
   \<and> unsubscribe_srv world_ok (Some ''/task/1'') initial_state
     = (Json 200 (JObj [(''status'', JStr ''not_found''), (''channel'', JStr ''/task/1'')]),
        initial_state)
   \<and> fst (unsubscribe_srv world_ok (Some ''/task/1'') subscribed_task1_srv)
     = Json 200 (JObj [(''status'', JStr ''unsubscribed''), (''channel'', JStr ''/task/1'')])
   \<and> Map_get (subs (snd (unsubscribe_srv world_ok (Some ''/task/1'') subscribed_task1_srv)))
        ''/task/1'' = None
   \<and> fst (unsubscribe_srv world_failing (Some ''/task/1'') subscribed_task1_srv)
     = Json 500 (JObj [(''error'', JStr ''cancel failed'')])
   \<and> subs (snd (unsubscribe_srv world_failing (Some ''/task/1'') subscribed_task1_srv))
     = subs subscribed_task1_srv"
proof -
  have none: "Map_get (active initial_state) ''/task/1'' = None"
    "Map_get (subs initial_state) ''/task/1'' = None"
    by (simp_all add: Map_get_def)
  have mgr: "Map_get (active subscribed_task1_mgr) ''/task/1''
               = Some \<lparr>rec_client = 0, rec_subscription = 0\<rparr>"
    by (simp add: subscribed_task1_mgr_eq Map_get_def)
  have srv: "Map_get (subs subscribed_task1_srv) ''/task/1''
               = Some \<lparr>client = 0, subscription = 0, createdAt = ''2025-01-01T00:00:00Z''\<rparr>"
    by (simp add: subscribed_task1_srv_eq Map_get_def)
  note fresh = C4_unsubscribe [of initial_state "''/task/1''" world_failing initial_state]
  note fresh_srv = C4_unsubscribe [of initial_state "''/task/1''" world_ok initial_state]
  note failing = C4_unsubscribe
    [of subscribed_task1_mgr "''/task/1''" world_failing subscribed_task1_srv]
  note ok = C4_unsubscribe [of subscribed_task1_mgr "''/task/1''" world_ok subscribed_task1_srv]
  from fresh none
  have a: "unsubscribeFromChannel world_failing ''/task/1'' initial_state
             = (Inr (status_result ''not_found'' ''/task/1''), initial_state)"
    by simp
  from failing mgr
  have b: "fst (unsubscribeFromChannel world_failing ''/task/1'' subscribed_task1_mgr)
             = Inr (status_result ''unsubscribed'' ''/task/1'')"
    and c: "effects (snd (unsubscribeFromChannel world_failing ''/task/1'' subscribed_task1_mgr))
             = effects subscribed_task1_mgr @ [SubscriptionCancel 0, ClientDisconnect 0]"
    and d: "Map_get (active (snd (unsubscribeFromChannel world_failing ''/task/1''
                                    subscribed_task1_mgr))) ''/task/1'' = None"
    by simp_all
  from fresh_srv none
  have e: "unsubscribe_srv world_ok (Some ''/task/1'') initial_state
     = (Json 200 (JObj [(''status'', JStr ''not_found''), (''channel'', JStr ''/task/1'')]),
        initial_state)"
    by simp
  from ok srv
  have f: "fst (unsubscribe_srv world_ok (Some ''/task/1'') subscribed_task1_srv)
     = Json 200 (JObj [(''status'', JStr ''unsubscribed''), (''channel'', JStr ''/task/1'')])"
    and g: "Map_get (subs (snd (unsubscribe_srv world_ok (Some ''/task/1'')
                                  subscribed_task1_srv))) ''/task/1'' = None"
    by simp_all
  from failing srv
  have h: "fst (unsubscribe_srv world_failing (Some ''/task/1'') subscribed_task1_srv)
     = Json 500 (JObj [(''error'', JStr ''cancel failed'')])"
    and i: "subs (snd (unsubscribe_srv world_failing (Some ''/task/1'') subscribed_task1_srv))
     = subs subscribed_task1_srv"
    by simp_all
  from a b c d e f g h i show ?thesis by (intro conjI)
qed

text \<open>
  C4 as stated fails in \<^verbatim>\<open>src/server.js\<close>: when \<^verbatim>\<open>cancel\<close> throws, the handler answers 500 and
  the entry stays in the registry; and when it returns, \<^verbatim>\<open>cancel\<close> is the only call made on
  the client, which is not disconnected.
\<close>

theorem C4_counterexample:
  "fst (unsubscribe_srv world_failing (Some ''/task/1'') subscribed_task1_srv)
     = Json 500 (JObj [(''error'', JStr ''cancel failed'')])
   \<and> Map_get (subs (snd (unsubscribe_srv world_failing (Some ''/task/1'') subscribed_task1_srv)))
        ''/task/1''
     = Some \<lparr>client = 0, subscription = 0, createdAt = ''2025-01-01T00:00:00Z''\<rparr>
   \<and> effects (snd (unsubscribe_srv world_ok (Some ''/task/1'') subscribed_task1_srv))
     = effects subscribed_task1_srv @ [SubscriptionCancel 0]"
  by (simp add: unsubscribe_srv_def subscribed_task1_srv_eq Map_get_def Map_delete_def Let_def
        emit_def)

section \<open>C5: the handshake challenge is echoed\<close>

text \<open>
  C5. A body whose \<^verbatim>\<open>type\<close> is \<^verbatim>\<open>subscription_verification\<close> and that carries a challenge
  value (for \<^verbatim>\<open>src/server.js\<close> a truthy one, as its line 117 asks) is answered with status
  200 and a body whose \<^verbatim>\<open>challenge\<close> is that value, by the handler of \<^verbatim>\<open>src/server.js\<close> and by
  the webhook listener. The answer is the same for every signature header, every secret
  and every behaviour of the collaborators, and the state is returned as it was: the
  signature validation is not evaluated and nothing is posted. The listener echoes
  whatever the body holds as challenge.
\<close>

theorem C5_handshake_echo:
  assumes "get_prop (req_body req) ''type'' = Inr (JStr ''subscription_verification'')"
    and "get_prop (req_body req) ''challenge'' = Inr challenge"
  shows "(truthy challenge \<longrightarrow>
            podio_push_srv e w req s =
              (Inr (Json 200 (handshake_body (case APP_BASE_URL e of None \<Rightarrow> [] | Some u \<Rightarrow> u)
                                challenge)), s))
       \<and> podio_push_hook e w req s =
              (Inr (Json 200 (handshake_body
                                (case APP_BASE_URL e of None \<Rightarrow> ''undefined'' | Some u \<Rightarrow> u)
                                challenge)), s)
       \<and> get_prop (handshake_body base challenge) ''challenge'' = Inr challenge"
proof (intro conjI impI)
  assume "truthy challenge"
  with assms show "podio_push_srv e w req s =
      (Inr (Json 200 (handshake_body (case APP_BASE_URL e of None \<Rightarrow> [] | Some u \<Rightarrow> u)
                        challenge)), s)"
    by (simp add: podio_push_srv_cases is_handshake_srv_def body_srv_of_typed)
next
  from assms show "podio_push_hook e w req s =
      (Inr (Json 200 (handshake_body
                        (case APP_BASE_URL e of None \<Rightarrow> ''undefined'' | Some u \<Rightarrow> u)
                        challenge)), s)"
    by (simp add: podio_push_hook_def Let_def)
next
  show "get_prop (handshake_body base challenge) ''challenge'' = Inr challenge"
    by (rule handshake_body_challenge)
qed

text \<open>
  The handshake of the end-to-end scenarios, without a signature header and with a wrong
  one.
\<close>

theorem C5_handshake_echo_witness:
  "podio_push_srv env_set world_failing handshake_request (initial_state :: sub_entry state) =
     (Inr (Json 200 (JObj [(''status'', JStr ''ok''),
                           (''subscribe_url'', JStr ''https://relay.example/podio/push''),
                           (''challenge'', JStr ''xyz'')])), initial_state)
   \<and> podio_push_hook env_unset world_failing
        (handshake_request\<lparr>x_podio_signature := Some ''wrong''\<rparr>)
        (initial_state :: sub_entry state) =
     (Inr (Json 200 (JObj [(''status'', JStr ''ok''),
                           (''subscribe_url'', JStr ''undefined/podio/push''),
                           (''challenge'', JStr ''xyz'')])), initial_state)"
proof -
  have ty: "get_prop (req_body handshake_request) ''type''
              = Inr (JStr ''subscription_verification'')"
    "get_prop (req_body (handshake_request\<lparr>x_podio_signature := Some ''wrong''\<rparr>)) ''type''
              = Inr (JStr ''subscription_verification'')"
    by (simp_all add: handshake_request_def)
  have ch: "get_prop (req_body handshake_request) ''challenge'' = Inr (JStr ''xyz'')"
    "get_prop (req_body (handshake_request\<lparr>x_podio_signature := Some ''wrong''\<rparr>)) ''challenge''
              = Inr (JStr ''xyz'')"
    by (simp_all add: handshake_request_def)
  have tr: "truthy (JStr ''xyz'')" by simp
  from C5_handshake_echo [OF ty(1) ch(1), of env_set world_failing
         "initial_state :: sub_entry state"] tr
  have a: "podio_push_srv env_set world_failing handshake_request
             (initial_state :: sub_entry state) =
     (Inr (Json 200 (JObj [(''status'', JStr ''ok''),
                           (''subscribe_url'', JStr ''https://relay.example/podio/push''),
                           (''challenge'', JStr ''xyz'')])), initial_state)"
    by (simp add: handshake_body_def)
  from C5_handshake_echo [OF ty(2) ch(2), of env_unset world_failing
         "initial_state :: sub_entry state"]
  have b: "podio_push_hook env_unset world_failing
        (handshake_request\<lparr>x_podio_signature := Some ''wrong''\<rparr>)
        (initial_state :: sub_entry state) =
     (Inr (Json 200 (JObj [(''status'', JStr ''ok''),
                           (''subscribe_url'', JStr ''undefined/podio/push''),
                           (''challenge'', JStr ''xyz'')])), initial_state)"
    by (simp add: handshake_body_def)
  from a b show ?thesis by (intro conjI)
qed

section \<open>C6: no forwarding without a valid signature\<close>

text \<open>
  C6. In \<^verbatim>\<open>src/server.js\<close>, a request that is not a handshake and whose signature header is
  absent, empty or not the digest of the body is answered with 401 and posts nothing;
  and whenever the handler posts anything, the request was not a handshake, carried a
  signature, and the validation had been evaluated and had returned true.
\<close>

theorem C6_unsigned_rejected:
  "(\<not> is_handshake_srv req
      \<and> (\<not> str_truthy (x_podio_signature req)
           \<or> validatePodioSignature_srv e w (body_srv req) (x_podio_signature req) \<noteq> Inr True)
     \<longrightarrow> fst (podio_push_srv e w req s) = Inr (Send 401 ''Invalid signature'')
         \<and> posts (effects (snd (podio_push_srv e w req s))) = posts (effects s))
   \<and> (posts (effects (snd (podio_push_srv e w req s))) \<noteq> posts (effects s)
     \<longrightarrow> \<not> is_handshake_srv req \<and> str_truthy (x_podio_signature req)
         \<and> validatePodioSignature_srv e w (body_srv req) (x_podio_signature req) = Inr True
         \<and> SignatureChecked \<in> set (effects (snd (podio_push_srv e w req s))))"
proof (intro conjI impI)
  assume h: "\<not> is_handshake_srv req
      \<and> (\<not> str_truthy (x_podio_signature req)
           \<or> validatePodioSignature_srv e w (body_srv req) (x_podio_signature req) \<noteq> Inr True)"
  then show "fst (podio_push_srv e w req s) = Inr (Send 401 ''Invalid signature'')"
    by (auto simp: podio_push_srv_cases verify_and_forward_srv_eq invalid_signature_def)
  from h show "posts (effects (snd (podio_push_srv e w req s))) = posts (effects s)"
    by (auto simp: podio_push_srv_posts)
next
  assume h: "posts (effects (snd (podio_push_srv e w req s))) \<noteq> posts (effects s)"
  then have c: "\<not> is_handshake_srv req \<and> str_truthy (x_podio_signature req)
      \<and> validatePodioSignature_srv e w (body_srv req) (x_podio_signature req) = Inr True"
    by (auto simp: podio_push_srv_posts split: if_splits)
  then show "\<not> is_handshake_srv req" "str_truthy (x_podio_signature req)"
    "validatePodioSignature_srv e w (body_srv req) (x_podio_signature req) = Inr True"
    by simp_all
  from c show "SignatureChecked \<in> set (effects (snd (podio_push_srv e w req s)))"
    by (simp add: podio_push_srv_cases verify_and_forward_srv_eq fan_out_srv_eq)
qed

text \<open>
  An event without a signature header, with a wrong one and with the right one.
\<close>

theorem C6_unsigned_rejected_witness:
  "fst (podio_push_srv env_set world_ok (event_request None) (initial_state :: sub_entry state))
     = Inr (Send 401 ''Invalid signature'')
   \<and> posts (effects (snd (podio_push_srv env_set world_ok (event_request None)
                            (initial_state :: sub_entry state)))) = []
   \<and> fst (podio_push_srv env_set world_ok (event_request (Some ''wrong''))
            (initial_state :: sub_entry state))
     = Inr (Send 401 ''Invalid signature'')
   \<and> posts (effects (snd (podio_push_srv env_set world_ok (event_request (Some ''wrong''))
                            (initial_state :: sub_entry state)))) = []
   \<and> SignatureChecked \<in> set (effects (snd (podio_push_srv env_set world_ok
         (event_request (Some ''s3cret:[object Object]'')) (initial_state :: sub_entry state))))"
proof -
  note absent = C6_unsigned_rejected
    [of "event_request None" env_set world_ok "initial_state :: sub_entry state"]
  note wrong = C6_unsigned_rejected
    [of "event_request (Some ''wrong'')" env_set world_ok "initial_state :: sub_entry state"]
  note valid = C6_unsigned_rejected
    [of "event_request (Some ''s3cret:[object Object]'')" env_set world_ok
        "initial_state :: sub_entry state"]
  have posted: "posts (effects (snd (podio_push_srv env_set world_ok
         (event_request (Some ''s3cret:[object Object]'')) (initial_state :: sub_entry state))))
      \<noteq> posts (effects (initial_state :: sub_entry state))"
    by (simp add: podio_push_srv_posts validate_srv_sample dispatches_def)
  from absent
  have a: "fst (podio_push_srv env_set world_ok (event_request None)
                  (initial_state :: sub_entry state)) = Inr (Send 401 ''Invalid signature'')"
    and b: "posts (effects (snd (podio_push_srv env_set world_ok (event_request None)
                            (initial_state :: sub_entry state)))) = []"
    by simp_all
  from wrong
  have c: "fst (podio_push_srv env_set world_ok (event_request (Some ''wrong''))
                  (initial_state :: sub_entry state)) = Inr (Send 401 ''Invalid signature'')"
    and d: "posts (effects (snd (podio_push_srv env_set world_ok (event_request (Some ''wrong''))
                            (initial_state :: sub_entry state)))) = []"
    by (simp_all add: validate_srv_sample)
  from valid posted
  have e: "SignatureChecked \<in> set (effects (snd (podio_push_srv env_set world_ok
         (event_request (Some ''s3cret:[object Object]'')) (initial_state :: sub_entry state))))"
    by blast
  from a b c d e show ?thesis by (intro conjI)
qed

section \<open>C7: the verifier and an unset secret\<close>

text \<open>
  C7. With \<^verbatim>\<open>PODIO_PUSH_SECRET\<close> unset, \<^verbatim>\<open>validatePodioSignature\<close> of the webhook listener
  (\<^verbatim>\<open>part_000\<close> lines 265-272) throws on a signed event, and the error leaves the handler,
  which sends no response; the function of \<^verbatim>\<open>src/server.js\<close>, whose key is
  \<^verbatim>\<open>PODIO_PUSH_SECRET || ""\<close>, returns false on the same input.
\<close>

theorem C7_validate_throws_without_secret:
  "validatePodioSignature_hook env_unset world_ok (req_body (event_request (Some ''abc'')))
       (Some ''abc'')
     = Inl (TypeError ''The key argument must be of type string. Received undefined'')
   \<and> fst (podio_push_hook env_unset world_ok (event_request (Some ''abc''))
            (initial_state :: sub_entry state))
     = Inl (TypeError ''The key argument must be of type string. Received undefined'')
   \<and> validatePodioSignature_srv env_unset world_ok (req_body (event_request (Some ''abc'')))
       (Some ''abc'')
     = Inr False"
  by (simp add: validatePodioSignature_hook_def validatePodioSignature_srv_total
        createHmac_sha1_def podio_push_hook_def verify_and_forward_hook_def Let_def)

section \<open>C8: a failing target and the other target\<close>

text \<open>
  C8, as the code has it. Neither forwarder settles with an error, whatever becomes of its
  POST, and so neither does a subscription callback (of \<^verbatim>\<open>src/server.js\<close> and of \<^verbatim>\<open>part_000\<close>).
  The forwarding step of the webhook handler issues the POST to every configured target
  at once, in the order AVA, debug, waits for neither and answers 200. A subscription
  callback issues the AVA POST at once and the debug POST when the AVA POST has settled,
  with success or with an error: the debug POST is issued later by the time the AVA POST
  took, and while the AVA POST does not settle the callback stays pending with the AVA
  POST as the only one issued. A target that is not configured takes no time.
\<close>

theorem C8_relay_isolation:
  "(\<forall>d err. fst (forwardToAVA e w payload s) \<noteq> Settles d (Inl err))
   \<and> (\<forall>d err. fst (forwardToDebug e w payload s) \<noteq> Settles d (Inl err))
   \<and> (\<forall>d err. fst (on_message_srv e w channel msg s) \<noteq> Settles d (Inl err))
   \<and> (\<forall>d err. fst (on_message_mgr e w channel msg s) \<noteq> Settles d (Inl err))
   \<and> fan_out_srv e w body s
       = (Inr (Send 200 ''OK''), emit (map (\<lambda>(u, p). HttpPost u p) (dispatches e body body)) s)
   \<and> post_times 0 (added s (snd (fan_out_srv e w body s)))
       = map (\<lambda>(u, p). (0, u)) (dispatches e body body)
   \<and> (\<forall>d. wait_for w (AVA_TOPIC_URL e)
              (event_envelope_srv channel msg (Date_toISOString w (clock s))) = Some d
        \<longrightarrow> posts (added s (snd (on_message_srv e w channel msg s)))
              = dispatches e (event_envelope_srv channel msg (Date_toISOString w (clock s)))
                  (event_envelope_srv channel msg (Date_toISOString w (Suc (clock s))))
            \<and> post_times 0 (added s (snd (on_message_srv e w channel msg s)))
              = (if str_truthy (AVA_TOPIC_URL e) then [(0, AVA_TOPIC_URL e)] else [])
                @ (if str_truthy (DEBUG_WEBHOOK_URL e) then [(d, DEBUG_WEBHOOK_URL e)] else []))
   \<and> (wait_for w (AVA_TOPIC_URL e)
          (event_envelope_srv channel msg (Date_toISOString w (clock s))) = None
        \<longrightarrow> fst (on_message_srv e w channel msg s) = Pending
            \<and> posts (added s (snd (on_message_srv e w channel msg s)))
              = [(AVA_TOPIC_URL e, event_envelope_srv channel msg (Date_toISOString w (clock s)))])
   \<and> (\<forall>d. wait_for w (AVA_TOPIC_URL e)
              (event_envelope_mgr channel msg (Date_toISOString w (clock s))) = Some d
        \<longrightarrow> posts (added s (snd (on_message_mgr e w channel msg s)))
              = dispatches e (event_envelope_mgr channel msg (Date_toISOString w (clock s)))
                  (event_envelope_mgr channel msg (Date_toISOString w (clock s)))
            \<and> post_times 0 (added s (snd (on_message_mgr e w channel msg s)))
              = (if str_truthy (AVA_TOPIC_URL e) then [(0, AVA_TOPIC_URL e)] else [])
                @ (if str_truthy (DEBUG_WEBHOOK_URL e) then [(d, DEBUG_WEBHOOK_URL e)] else []))
   \<and> (wait_for w (AVA_TOPIC_URL e)
          (event_envelope_mgr channel msg (Date_toISOString w (clock s))) = None
        \<longrightarrow> fst (on_message_mgr e w channel msg s) = Pending
            \<and> posts (added s (snd (on_message_mgr e w channel msg s)))
              = [(AVA_TOPIC_URL e, event_envelope_mgr channel msg (Date_toISOString w (clock s)))])"
proof (intro conjI allI impI)
  fix d err
  show "fst (forwardToAVA e w payload s) \<noteq> Settles d (Inl err)"
    by (simp add: forwardToAVA_eq promise_no_error)
  show "fst (forwardToDebug e w payload s) \<noteq> Settles d (Inl err)"
    by (simp add: forwardToDebug_eq promise_no_error)
  show "fst (on_message_srv e w channel msg s) \<noteq> Settles d (Inl err)"
    by (simp add: on_message_srv_eq Let_def split: option.splits)
  show "fst (on_message_mgr e w channel msg s) \<noteq> Settles d (Inl err)"
    by (simp add: on_message_mgr_eq Let_def split: option.splits)
next
  show "fan_out_srv e w body s
      = (Inr (Send 200 ''OK''), emit (map (\<lambda>(u, p). HttpPost u p) (dispatches e body body)) s)"
    by (simp add: fan_out_srv_eq emit_def)
  show "post_times 0 (added s (snd (fan_out_srv e w body s)))
      = map (\<lambda>(u, p). (0, u)) (dispatches e body body)"
    by (simp add: fan_out_srv_eq post_times_map_HttpPost)
next
  fix d
  assume "wait_for w (AVA_TOPIC_URL e)
            (event_envelope_srv channel msg (Date_toISOString w (clock s))) = Some d"
  then show "posts (added s (snd (on_message_srv e w channel msg s)))
      = dispatches e (event_envelope_srv channel msg (Date_toISOString w (clock s)))
          (event_envelope_srv channel msg (Date_toISOString w (Suc (clock s))))"
    and "post_times 0 (added s (snd (on_message_srv e w channel msg s)))
      = (if str_truthy (AVA_TOPIC_URL e) then [(0, AVA_TOPIC_URL e)] else [])
        @ (if str_truthy (DEBUG_WEBHOOK_URL e) then [(d, DEBUG_WEBHOOK_URL e)] else [])"
    by (simp_all add: on_message_srv_eq Let_def dispatches_def split: option.splits)
next
  assume "wait_for w (AVA_TOPIC_URL e)
            (event_envelope_srv channel msg (Date_toISOString w (clock s))) = None"
  then show "fst (on_message_srv e w channel msg s) = Pending"
    and "posts (added s (snd (on_message_srv e w channel msg s)))
      = [(AVA_TOPIC_URL e, event_envelope_srv channel msg (Date_toISOString w (clock s)))]"
    by (simp_all add: on_message_srv_eq Let_def wait_for_def split: if_splits)
next
  fix d
  assume "wait_for w (AVA_TOPIC_URL e)
            (event_envelope_mgr channel msg (Date_toISOString w (clock s))) = Some d"
  then show "posts (added s (snd (on_message_mgr e w channel msg s)))
      = dispatches e (event_envelope_mgr channel msg (Date_toISOString w (clock s)))
          (event_envelope_mgr channel msg (Date_toISOString w (clock s)))"
    and "post_times 0 (added s (snd (on_message_mgr e w channel msg s)))
      = (if str_truthy (AVA_TOPIC_URL e) then [(0, AVA_TOPIC_URL e)] else [])
        @ (if str_truthy (DEBUG_WEBHOOK_URL e) then [(d, DEBUG_WEBHOOK_URL e)] else [])"
    by (simp_all add: on_message_mgr_eq Let_def dispatches_def split: option.splits)
next
  assume "wait_for w (AVA_TOPIC_URL e)
            (event_envelope_mgr channel msg (Date_toISOString w (clock s))) = None"
  then show "fst (on_message_mgr e w channel msg s) = Pending"
    and "posts (added s (snd (on_message_mgr e w channel msg s)))
      = [(AVA_TOPIC_URL e, event_envelope_mgr channel msg (Date_toISOString w (clock s)))]"
    by (simp_all add: on_message_mgr_eq Let_def wait_for_def split: if_splits)
qed

text \<open>
  A message on \<^verbatim>\<open>/task/1\<close>: the webhook's forwarding step with an AVA topic that never
  answers, the callback of \<^verbatim>\<open>src/server.js\<close> with an AVA topic that refuses after 21000 ms,
  and the callback of \<^verbatim>\<open>part_000\<close> with an AVA topic that never answers.
\<close>

theorem C8_relay_isolation_witness:
  "post_times 0 (added initial_state
       (snd (fan_out_srv env_set world_hanging (JStr ''hello'') (initial_state :: sub_entry state))))
     = [(0, Some ''https://ava.example/topic''), (0, Some ''https://debug.example/hook'')]
   \<and> posts (added initial_state
        (snd (on_message_srv env_set world_failing ''/task/1'' (JStr ''hello'')
                (initial_state :: sub_entry state))))
     = [(Some ''https://ava.example/topic'',
           event_envelope_srv ''/task/1'' (JStr ''hello'') ''2025-01-01T00:00:00Z''),
        (Some ''https://debug.example/hook'',
           event_envelope_srv ''/task/1'' (JStr ''hello'') ''2025-01-01T00:00:01Z'')]
   \<and> post_times 0 (added initial_state
        (snd (on_message_srv env_set world_failing ''/task/1'' (JStr ''hello'')
                (initial_state :: sub_entry state))))
     = [(0, Some ''https://ava.example/topic''), (21000, Some ''https://debug.example/hook'')]
   \<and> fst (on_message_mgr env_set world_hanging ''/task/1'' (JStr ''hello'')
            (initial_state :: active_entry state)) = Pending
   \<and> posts (added initial_state
        (snd (on_message_mgr env_set world_hanging ''/task/1'' (JStr ''hello'')
                (initial_state :: active_entry state))))
     = [(Some ''https://ava.example/topic'',
           event_envelope_mgr ''/task/1'' (JStr ''hello'') ''2025-01-01T00:00:00Z'')]"
proof -
  note hang = C8_relay_isolation
    [of env_set world_hanging _ "initial_state :: sub_entry state" "''/task/1''" "JStr ''hello''"
        "JStr ''hello''"]
  note slow = C8_relay_isolation
    [of env_set world_failing _ "initial_state :: sub_entry state" "''/task/1''" "JStr ''hello''"]
  note hang_mgr = C8_relay_isolation
    [of env_set world_hanging _ "initial_state :: active_entry state" "''/task/1''"
        "JStr ''hello''"]
  have w1: "wait_for world_failing (AVA_TOPIC_URL env_set)
              (event_envelope_srv ''/task/1'' (JStr ''hello'')
                 (Date_toISOString world_failing (clock (initial_state :: sub_entry state))))
            = Some 21000"
    by (simp add: wait_for_def)
  have w2: "wait_for world_hanging (AVA_TOPIC_URL env_set)
              (event_envelope_mgr ''/task/1'' (JStr ''hello'')
                 (Date_toISOString world_hanging (clock (initial_state :: active_entry state))))
            = None"
    by (simp add: wait_for_def)
  from hang
  have a: "post_times 0 (added initial_state
       (snd (fan_out_srv env_set world_hanging (JStr ''hello'') (initial_state :: sub_entry state))))
     = [(0, Some ''https://ava.example/topic''), (0, Some ''https://debug.example/hook'')]"
    by (simp add: dispatches_def)
  from slow [THEN conjunct2, THEN conjunct2, THEN conjunct2, THEN conjunct2, THEN conjunct2,
             THEN conjunct2, THEN conjunct1, rule_format, OF w1]
  have b: "posts (added initial_state
        (snd (on_message_srv env_set world_failing ''/task/1'' (JStr ''hello'')
                (initial_state :: sub_entry state))))
     = [(Some ''https://ava.example/topic'',
           event_envelope_srv ''/task/1'' (JStr ''hello'') ''2025-01-01T00:00:00Z''),
        (Some ''https://debug.example/hook'',
           event_envelope_srv ''/task/1'' (JStr ''hello'') ''2025-01-01T00:00:01Z'')]"
    and c: "post_times 0 (added initial_state
        (snd (on_message_srv env_set world_failing ''/task/1'' (JStr ''hello'')
                (initial_state :: sub_entry state))))
     = [(0, Some ''https://ava.example/topic''), (21000, Some ''https://debug.example/hook'')]"
    by (simp_all add: dispatches_def)
  from hang_mgr [THEN conjunct2, THEN conjunct2, THEN conjunct2, THEN conjunct2, THEN conjunct2,
                 THEN conjunct2, THEN conjunct2, THEN conjunct2, THEN conjunct2, rule_format,
                 OF w2]
  have d: "fst (on_message_mgr env_set world_hanging ''/task/1'' (JStr ''hello'')
            (initial_state :: active_entry state)) = Pending"
    and f: "posts (added initial_state
        (snd (on_message_mgr env_set world_hanging ''/task/1'' (JStr ''hello'')
                (initial_state :: active_entry state))))
     = [(Some ''https://ava.example/topic'',
           event_envelope_mgr ''/task/1'' (JStr ''hello'') ''2025-01-01T00:00:00Z'')]"
    by simp_all
  from a b c d f show ?thesis by (intro conjI)
qed

text \<open>
  C8 as stated fails in the subscription callback of \<^verbatim>\<open>src/server.js\<close>. With an AVA topic
  that never answers, the callback stays pending and the debug target is never posted
  to. With one that fails after 21000 ms the debug POST is issued at 21000 ms, where it
  is issued at 40 ms when the AVA POST succeeds after 40 ms.
\<close>

theorem C8_counterexample:
  "fst (on_message_srv env_set world_hanging ''/task/1'' (JStr ''hello'')
          (initial_state :: sub_entry state)) = Pending
   \<and> posts (effects (snd (on_message_srv env_set world_hanging ''/task/1'' (JStr ''hello'')
                            (initial_state :: sub_entry state))))
     = [(Some ''https://ava.example/topic'',
           event_envelope_srv ''/task/1'' (JStr ''hello'') ''2025-01-01T00:00:00Z'')]
   \<and> post_times 0 (effects (snd (on_message_srv env_set world_failing ''/task/1'' (JStr ''hello'')
                                   (initial_state :: sub_entry state))))
     = [(0, Some ''https://ava.example/topic''), (21000, Some ''https://debug.example/hook'')]
   \<and> post_times 0 (effects (snd (on_message_srv env_set world_ok ''/task/1'' (JStr ''hello'')
                                   (initial_state :: sub_entry state))))
     = [(0, Some ''https://ava.example/topic''), (40, Some ''https://debug.example/hook'')]"
  by (simp add: on_message_srv_eq Let_def wait_for_def)

section \<open>C9: each operation touches its own channel only\<close>

text \<open>
  C9. Each operation changes the registry at most at the channel it is called for: after
  \<^verbatim>\<open>/subscribe\<close> and \<^verbatim>\<open>/unsubscribe\<close> (in \<^verbatim>\<open>src/server.js\<close> and in \<^verbatim>\<open>part_000\<close>, the route handlers
  and the functions they call) the entry of every other channel is what it was, and a
  request that names no channel changes nothing. The webhook handlers, the subscription
  callback and the health endpoints leave the registry as it is.
\<close>

theorem C9_registry_frame:
  "(push_channel p \<noteq> Some c \<longrightarrow>
      Map_get (subs (snd (subscribe_srv w (Some p) s))) c = Map_get (subs s) c)
   \<and> subs (snd (subscribe_srv w None s)) = subs s
   \<and> (req \<noteq> Some c \<longrightarrow>
      Map_get (subs (snd (unsubscribe_srv w req s))) c = Map_get (subs s) c)
   \<and> (push_channel p \<noteq> Some c \<longrightarrow>
      Map_get (active (snd (subscribe_mgr e w (Some p) t))) c = Map_get (active t) c)
   \<and> active (snd (subscribe_mgr e w None t)) = active t
   \<and> (channel \<noteq> c \<longrightarrow>
      Map_get (active (snd (subscribeToChannel e w channel signature timestamp t))) c
        = Map_get (active t) c)
   \<and> (req \<noteq> Some c \<longrightarrow>
      Map_get (active (snd (unsubscribe_mgr w req t))) c = Map_get (active t) c)
   \<and> (channel \<noteq> c \<longrightarrow>
      Map_get (active (snd (unsubscribeFromChannel w channel t))) c = Map_get (active t) c)
   \<and> subs (snd (podio_push_srv e w hook s)) = subs s
   \<and> registry (snd (podio_push_hook e w hook u)) = registry u
   \<and> subs (snd (on_message_srv e w channel msg s)) = subs s
   \<and> active (snd (on_message_mgr e w channel msg t)) = active t
   \<and> snd (health_srv s) = s
   \<and> snd (health_mgr e t) = t"
proof (intro conjI impI)
  assume "push_channel p \<noteq> Some c"
  then show "Map_get (subs (snd (subscribe_srv w (Some p) s))) c = Map_get (subs s) c"
    by (auto simp: subscribe_srv_registry Map_get_set split: option.splits)
next
  show "subs (snd (subscribe_srv w None s)) = subs s"
    by (simp add: subscribe_srv_registry)
next
  assume "req \<noteq> Some c"
  then show "Map_get (subs (snd (unsubscribe_srv w req s))) c = Map_get (subs s) c"
    by (auto simp: unsubscribe_srv_registry Map_get_delete split: option.splits)
next
  assume "push_channel p \<noteq> Some c"
  then show "Map_get (active (snd (subscribe_mgr e w (Some p) t))) c = Map_get (active t) c"
    by (auto simp: subscribe_mgr_registry subscribeToChannel_registry Map_get_set
             split: option.splits)
next
  show "active (snd (subscribe_mgr e w None t)) = active t"
    by (simp add: subscribe_mgr_registry)
next
  assume "channel \<noteq> c"
  then show "Map_get (active (snd (subscribeToChannel e w channel signature timestamp t))) c
      = Map_get (active t) c"
    by (auto simp: subscribeToChannel_registry Map_get_set)
next
  assume "req \<noteq> Some c"
  then show "Map_get (active (snd (unsubscribe_mgr w req t))) c = Map_get (active t) c"
    by (auto simp: unsubscribe_mgr_registry Map_get_delete split: option.splits)
next
  assume "channel \<noteq> c"
  then show "Map_get (active (snd (unsubscribeFromChannel w channel t))) c = Map_get (active t) c"
    by (auto simp: unsubscribeFromChannel_registry Map_get_delete)
next
  show "subs (snd (podio_push_srv e w hook s)) = subs s"
    by (rule podio_push_srv_registry)
next
  show "registry (snd (podio_push_hook e w hook u)) = registry u"
    by (rule podio_push_hook_registry)
next
  show "subs (snd (on_message_srv e w channel msg s)) = subs s"
    by (simp add: on_message_registry)
next
  show "active (snd (on_message_mgr e w channel msg t)) = active t"
    by (simp add: on_message_registry)
next
  show "snd (health_srv s) = s"
    by (simp add: health_srv_def)
next
  show "snd (health_mgr e t) = t"
    by (simp add: health_mgr_def)
qed

text \<open>
  Subscribing and unsubscribing \<^verbatim>\<open>/task/2\<close> leaves the entry of \<^verbatim>\<open>/task/1\<close> as it was.
\<close>

theorem C9_registry_frame_witness:
  "Map_get (subs (snd (subscribe_srv world_ok
        (Some (push_task1\<lparr>push_channel := Some ''/task/2''\<rparr>)) subscribed_task1_srv))) ''/task/1''
     = Some \<lparr>client = 0, subscription = 0, createdAt = ''2025-01-01T00:00:00Z''\<rparr>
   \<and> Map_get (subs (snd (unsubscribe_srv world_ok (Some ''/task/2'') subscribed_task1_srv)))
        ''/task/1''
     = Some \<lparr>client = 0, subscription = 0, createdAt = ''2025-01-01T00:00:00Z''\<rparr>
   \<and> Map_get (active (snd (subscribeToChannel env_unset world_ok ''/task/2'' (JStr ''abc'')
        (JNum 1700000000) subscribed_task1_mgr))) ''/task/1''
     = Some \<lparr>rec_client = 0, rec_subscription = 0\<rparr>
   \<and> Map_get (active (snd (unsubscribeFromChannel world_ok ''/task/2'' subscribed_task1_mgr)))
        ''/task/1''
     = Some \<lparr>rec_client = 0, rec_subscription = 0\<rparr>"
proof -
  have srv: "Map_get (subs subscribed_task1_srv) ''/task/1''
               = Some \<lparr>client = 0, subscription = 0, createdAt = ''2025-01-01T00:00:00Z''\<rparr>"
    by (simp add: subscribed_task1_srv_eq Map_get_def)
  have mgr: "Map_get (active subscribed_task1_mgr) ''/task/1''
               = Some \<lparr>rec_client = 0, rec_subscription = 0\<rparr>"
    by (simp add: subscribed_task1_mgr_eq Map_get_def)
  have other: "push_channel (push_task1\<lparr>push_channel := Some ''/task/2''\<rparr>) \<noteq> Some ''/task/1''"
    "Some ''/task/2'' \<noteq> Some ''/task/1''" "''/task/2'' \<noteq> ''/task/1''"
    by simp_all
  note C9 = C9_registry_frame
    [of "push_task1\<lparr>push_channel := Some ''/task/2''\<rparr>" "''/task/1''" world_ok
        subscribed_task1_srv "Some ''/task/2''" env_unset subscribed_task1_mgr "''/task/2''"
        "JStr ''abc''" "JNum 1700000000" "event_request None" subscribed_task1_srv JNull]
  from C9 other(1) srv
  have a: "Map_get (subs (snd (subscribe_srv world_ok
        (Some (push_task1\<lparr>push_channel := Some ''/task/2''\<rparr>)) subscribed_task1_srv))) ''/task/1''
     = Some \<lparr>client = 0, subscription = 0, createdAt = ''2025-01-01T00:00:00Z''\<rparr>"
    by simp
  from C9 other(2) srv
  have b: "Map_get (subs (snd (unsubscribe_srv world_ok (Some ''/task/2'') subscribed_task1_srv)))
        ''/task/1''
     = Some \<lparr>client = 0, subscription = 0, createdAt = ''2025-01-01T00:00:00Z''\<rparr>"
    by simp
  from C9 other(3) mgr
  have c: "Map_get (active (snd (subscribeToChannel env_unset world_ok ''/task/2'' (JStr ''abc'')
        (JNum 1700000000) subscribed_task1_mgr))) ''/task/1''
     = Some \<lparr>rec_client = 0, rec_subscription = 0\<rparr>"
    by simp
  from C9 other(3) mgr
  have d: "Map_get (active (snd (unsubscribeFromChannel world_ok ''/task/2''
        subscribed_task1_mgr))) ''/task/1''
     = Some \<lparr>rec_client = 0, rec_subscription = 0\<rparr>"
    by simp
  from a b c d show ?thesis by (intro conjI)
qed

section \<open>C10: a handshake type without a challenge\<close>

text \<open>
  C10. In \<^verbatim>\<open>src/server.js\<close>, a body whose \<^verbatim>\<open>type\<close> is \<^verbatim>\<open>subscription_verification\<close> and whose
  \<^verbatim>\<open>challenge\<close> is absent or falsy is handled as lines 127-138 handle any event: without a
  signature that validates the answer is 401 and nothing is posted, with one the body is
  forwarded and the answer is 200.
\<close>

theorem C10_handshake_without_challenge:
  assumes "get_prop (req_body req) ''type'' = Inr (JStr ''subscription_verification'')"
    and "get_prop (req_body req) ''challenge'' = Inr challenge"
    and "\<not> truthy challenge"
  shows "podio_push_srv e w req s
           = verify_and_forward_srv e w (req_body req) (x_podio_signature req) s
       \<and> (\<not> str_truthy (x_podio_signature req)
            \<or> validatePodioSignature_srv e w (req_body req) (x_podio_signature req) \<noteq> Inr True
          \<longrightarrow> fst (podio_push_srv e w req s) = Inr (Send 401 ''Invalid signature'')
              \<and> posts (effects (snd (podio_push_srv e w req s))) = posts (effects s))
       \<and> (str_truthy (x_podio_signature req)
            \<and> validatePodioSignature_srv e w (req_body req) (x_podio_signature req) = Inr True
          \<longrightarrow> fst (podio_push_srv e w req s) = Inr (Send 200 ''OK'')
              \<and> posts (effects (snd (podio_push_srv e w req s)))
                  = posts (effects s) @ dispatches e (req_body req) (req_body req))"
proof -
  from assms(1) have body: "body_srv req = req_body req"
    by (rule body_srv_of_typed)
  from assms body have no: "\<not> is_handshake_srv req"
    by (simp add: is_handshake_srv_def)
  from no body have eq: "podio_push_srv e w req s
      = verify_and_forward_srv e w (req_body req) (x_podio_signature req) s"
    by (simp add: podio_push_srv_cases)
  show ?thesis
  proof (intro conjI impI)
    show "podio_push_srv e w req s
        = verify_and_forward_srv e w (req_body req) (x_podio_signature req) s"
      by (rule eq)
  next
    assume h: "\<not> str_truthy (x_podio_signature req)
        \<or> validatePodioSignature_srv e w (req_body req) (x_podio_signature req) \<noteq> Inr True"
    then show "fst (podio_push_srv e w req s) = Inr (Send 401 ''Invalid signature'')"
      by (auto simp: eq verify_and_forward_srv_eq invalid_signature_def)
    from h show "posts (effects (snd (podio_push_srv e w req s))) = posts (effects s)"
      by (auto simp: eq verify_and_forward_srv_posts)
  next
    assume h: "str_truthy (x_podio_signature req)
        \<and> validatePodioSignature_srv e w (req_body req) (x_podio_signature req) = Inr True"
    then show "fst (podio_push_srv e w req s) = Inr (Send 200 ''OK'')"
      by (simp add: eq verify_and_forward_srv_eq fan_out_srv_eq)
    from h show "posts (effects (snd (podio_push_srv e w req s)))
        = posts (effects s) @ dispatches e (req_body req) (req_body req)"
      by (simp add: eq verify_and_forward_srv_posts)
  qed
qed

text \<open>
  A body \<^verbatim>\<open>{type: "subscription_verification"}\<close>, without a signature header and with the
  right one.
\<close>

theorem C10_handshake_without_challenge_witness:
  "fst (podio_push_srv env_set world_ok (bare_handshake_request None)
          (initial_state :: sub_entry state))
     = Inr (Send 401 ''Invalid signature'')
   \<and> posts (effects (snd (podio_push_srv env_set world_ok (bare_handshake_request None)
                            (initial_state :: sub_entry state)))) = []
   \<and> fst (podio_push_srv env_set world_ok
            (bare_handshake_request (Some ''s3cret:[object Object]''))
            (initial_state :: sub_entry state))
     = Inr (Send 200 ''OK'')
   \<and> posts (effects (snd (podio_push_srv env_set world_ok
            (bare_handshake_request (Some ''s3cret:[object Object]''))
            (initial_state :: sub_entry state))))
     = [(Some ''https://ava.example/topic'', JObj [(''type'', JStr ''subscription_verification'')]),
        (Some ''https://debug.example/hook'', JObj [(''type'', JStr ''subscription_verification'')])]"
proof -
  have ty: "get_prop (req_body (bare_handshake_request signature)) ''type''
              = Inr (JStr ''subscription_verification'')" for signature
    by simp
  have ch: "get_prop (req_body (bare_handshake_request signature)) ''challenge''
              = Inr JUndefined" for signature
    by simp
  have falsy: "\<not> truthy JUndefined" by simp
  note absent = C10_handshake_without_challenge
    [OF ty [of None] ch [of None] falsy, of env_set world_ok "initial_state :: sub_entry state"]
  note valid = C10_handshake_without_challenge
    [OF ty [of "Some ''s3cret:[object Object]''"] ch [of "Some ''s3cret:[object Object]''"] falsy,
       of env_set world_ok "initial_state :: sub_entry state"]
  from absent [THEN conjunct2, THEN conjunct1]
  have a: "fst (podio_push_srv env_set world_ok (bare_handshake_request None)
                  (initial_state :: sub_entry state)) = Inr (Send 401 ''Invalid signature'')"
    and b: "posts (effects (snd (podio_push_srv env_set world_ok (bare_handshake_request None)
                            (initial_state :: sub_entry state)))) = []"
    by simp_all
  from valid [THEN conjunct2, THEN conjunct2]
  have c: "fst (podio_push_srv env_set world_ok
            (bare_handshake_request (Some ''s3cret:[object Object]''))
            (initial_state :: sub_entry state)) = Inr (Send 200 ''OK'')"
    and d: "posts (effects (snd (podio_push_srv env_set world_ok
            (bare_handshake_request (Some ''s3cret:[object Object]''))
            (initial_state :: sub_entry state))))
     = [(Some ''https://ava.example/topic'', JObj [(''type'', JStr ''subscription_verification'')]),
        (Some ''https://debug.example/hook'', JObj [(''type'', JStr ''subscription_verification'')])]"
    by (simp_all add: validate_srv_sample dispatches_def)
  from a b c d show ?thesis by (intro conjI)
qed

end
